theory Spec2Isabelle
  imports Complex_Main
begin

section \<open>Data model\<close>

text \<open>
  The controller of \<^verbatim>\<open>src/character.js\<close> and the engine wrappers of
  \<^verbatim>\<open>src/physics.js\<close>. JavaScript numbers are idealised as reals: rounding, NaN,
  the infinities and the sign of zero are outside the model. A call that may throw
  returns an \<open>outcome\<close>; a \<^verbatim>\<open>try\<close>/\<^verbatim>\<open>catch\<close> is a case distinction on it, and
  the state mutated before the throw is the state the handler sees.
\<close>

datatype 'a outcome = Throws | Returns 'a

record vec3 =
  vx :: real
  vy :: real
  vz :: real

record vec2 =
  dx :: real
  dz :: real

text \<open>\<^verbatim>\<open>this.options\<close> with the defaults of the constructor.\<close>

record char_options =
  moveSpeed :: real
  jumpForce :: real
  jumpCooldown :: real
  rotationSpeed :: real
  airControl :: real

definition default_options :: char_options where
  "default_options =
     \<lparr>moveSpeed = 5, jumpForce = 10, jumpCooldown = 3 / 10, rotationSpeed = 5,
      airControl = 3 / 10\<rparr>"

text \<open>\<^verbatim>\<open>this.state\<close>.\<close>

record char_state =
  isGrounded :: bool
  isJumping :: bool
  jumpCooldownTimer :: real
  velocity :: vec3
  position :: vec3
  rotation :: vec3
  direction :: vec2
  movementDirection :: vec2

text \<open>
  What \<^verbatim>\<open>physics.createCharacter\<close> hands back: an object that may or may not carry a
  \<^verbatim>\<open>body\<close>, whose \<^verbatim>\<open>translation\<close> may or may not be a function.
\<close>

record char_handle =
  has_body :: bool
  translation_is_function :: bool

text \<open>
  The calls the controller issues to the physics object, in order. They are the only
  outward effect of \<^verbatim>\<open>update\<close>, so the controller carries them as a log.
\<close>

datatype engine_call = SetBodyVelocity vec3 | ApplyImpulse vec3

record controller =
  options :: char_options
  state :: char_state
  usingFallback :: bool
  character :: "char_handle option"
  issued :: "engine_call list"

text \<open>The input handler as the controller reads it during one frame.\<close>

record input =
  getMovementDirection :: vec2
  input_isJumping :: bool

text \<open>
  The physics object as the controller sees it during one frame: what each capability
  call answers, or that it throws. \<^verbatim>\<open>body.linvel()\<close> is called on the body directly.
\<close>

record physics =
  phys_isGrounded :: "bool outcome"
  body_linvel :: "vec3 outcome"
  phys_setBodyVelocity :: "vec3 \<Rightarrow> unit outcome"
  phys_applyImpulse :: "vec3 \<Rightarrow> unit outcome"
  phys_getBodyPosition :: "vec3 outcome"

section \<open>The engine wrappers of physics.js\<close>

text \<open>
  A Rapier rigid body during one frame: what each of its methods answers. The world
  contributes \<^verbatim>\<open>initialized\<close> and the ray cast (\<open>Returns True\<close> when
  \<^verbatim>\<open>hit !== null\<close>; building the ray is part of the cast).
\<close>

record body =
  translation :: "vec3 outcome"
  linvel :: "vec3 outcome"
  setLinvel :: "vec3 \<Rightarrow> unit outcome"
  applyImpulse :: "vec3 \<Rightarrow> unit outcome"

record world =
  initialized :: bool
  castRay :: "bool outcome"

definition PhysicsWorld_isGrounded :: "world \<Rightarrow> body option \<Rightarrow> bool" where
  "PhysicsWorld_isGrounded w b =
     (case b of
        None \<Rightarrow> False
      | Some bd \<Rightarrow>
          if \<not> initialized w then False
          else (case translation bd of
                  Throws \<Rightarrow> True
                | Returns p \<Rightarrow> (case castRay w of Throws \<Rightarrow> True | Returns hit \<Rightarrow> hit)))"

definition PhysicsWorld_getBodyPosition :: "body option \<Rightarrow> vec3" where
  "PhysicsWorld_getBodyPosition b =
     (case b of
        None \<Rightarrow> \<lparr>vx = 0, vy = 0, vz = 0\<rparr>
      | Some bd \<Rightarrow>
          (case translation bd of
             Throws \<Rightarrow> \<lparr>vx = 0, vy = 0, vz = 0\<rparr>
           | Returns p \<Rightarrow> \<lparr>vx = vx p, vy = vy p, vz = vz p\<rparr>))"

definition PhysicsWorld_setBodyVelocity :: "body option \<Rightarrow> vec3 \<Rightarrow> unit outcome" where
  "PhysicsWorld_setBodyVelocity b v =
     (case b of
        None \<Rightarrow> Returns ()
      | Some bd \<Rightarrow>
          (case setLinvel bd \<lparr>vx = vx v, vy = vy v, vz = vz v\<rparr> of
             Throws \<Rightarrow> Returns ()
           | Returns u \<Rightarrow> Returns ()))"

definition PhysicsWorld_applyImpulse :: "body option \<Rightarrow> vec3 \<Rightarrow> unit outcome" where
  "PhysicsWorld_applyImpulse b i =
     (case b of
        None \<Rightarrow> Returns ()
      | Some bd \<Rightarrow>
          (case applyImpulse bd \<lparr>vx = vx i, vy = vy i, vz = vz i\<rparr> of
             Throws \<Rightarrow> Returns ()
           | Returns u \<Rightarrow> Returns ()))"

text \<open>
  The \<^verbatim>\<open>PhysicsWorld\<close> instance of the interface, for the body the controller holds.
\<close>

definition PhysicsWorld :: "world \<Rightarrow> body \<Rightarrow> physics" where
  "PhysicsWorld w bd =
     \<lparr>phys_isGrounded = Returns (PhysicsWorld_isGrounded w (Some bd)),
      body_linvel = linvel bd,
      phys_setBodyVelocity = PhysicsWorld_setBodyVelocity (Some bd),
      phys_applyImpulse = PhysicsWorld_applyImpulse (Some bd),
      phys_getBodyPosition = Returns (PhysicsWorld_getBodyPosition (Some bd))\<rparr>"

section \<open>Orientation\<close>

text \<open>
  \<^verbatim>\<open>Math.atan2(y, x)\<close> on reals, by the quadrant of \<open>(x, y)\<close>.
\<close>

definition atan2 :: "real \<Rightarrow> real \<Rightarrow> real" where
  "atan2 y x =
     (if x > 0 then arctan (y / x)
      else if x < 0 then (if y \<ge> 0 then arctan (y / x) + pi else arctan (y / x) - pi)
      else if y > 0 then pi / 2
      else if y < 0 then - (pi / 2)
      else 0)"

text \<open>The two normalising \<^verbatim>\<open>while\<close> statements of \<^verbatim>\<open>updateRotation\<close>.\<close>

function wrap_down :: "real \<Rightarrow> real" where
  "wrap_down a = (if a > pi then wrap_down (a - pi * 2) else a)"
  by pat_completeness auto
termination
proof (relation "measure (\<lambda>a. nat \<lceil>a / (pi * 2)\<rceil>)")
  show "wf (measure (\<lambda>a. nat \<lceil>a / (pi * 2)\<rceil>))" by simp
next
  fix a :: real
  assume gt: "pi < a"
  have e: "(a - pi * 2) / (pi * 2) = a / (pi * 2) - 1"
    by (simp add: diff_divide_distrib)
  have "0 < a" using gt pi_gt_zero by linarith
  then have "0 < a / (pi * 2)" using pi_gt_zero by (intro divide_pos_pos) simp_all
  then have "0 < \<lceil>a / (pi * 2)\<rceil>" by linarith
  then have "nat \<lceil>a / (pi * 2) - 1\<rceil> < nat \<lceil>a / (pi * 2)\<rceil>" by simp
  then show "(a - pi * 2, a) \<in> measure (\<lambda>a. nat \<lceil>a / (pi * 2)\<rceil>)"
    by (simp add: e)
qed

function wrap_up :: "real \<Rightarrow> real" where
  "wrap_up a = (if a < - pi then wrap_up (a + pi * 2) else a)"
  by pat_completeness auto
termination
proof (relation "measure (\<lambda>a. nat \<lceil>- a / (pi * 2)\<rceil>)")
  show "wf (measure (\<lambda>a. nat \<lceil>- a / (pi * 2)\<rceil>))" by simp
next
  fix a :: real
  assume lt: "a < - pi"
  have e: "- (a + pi * 2) / (pi * 2) = - a / (pi * 2) - 1"
    by (simp add: diff_divide_distrib add_divide_distrib)
  have "0 < - a" using lt pi_gt_zero by linarith
  then have "0 < - a / (pi * 2)" using pi_gt_zero by (intro divide_pos_pos) simp_all
  then have "0 < \<lceil>- a / (pi * 2)\<rceil>" by linarith
  then have k: "nat (\<lceil>- a / (pi * 2)\<rceil> - 1) < nat \<lceil>- a / (pi * 2)\<rceil>" by linarith
  have c: "\<lceil>- a / (pi * 2) - 1\<rceil> = \<lceil>- a / (pi * 2)\<rceil> - 1" by (rule ceiling_diff_one)
  show "(a + pi * 2, a) \<in> measure (\<lambda>a. nat \<lceil>- a / (pi * 2)\<rceil>)"
    unfolding in_measure e c by (rule k)
qed

declare wrap_down.simps [simp del] wrap_up.simps [simp del]

text \<open>
  The shortest signed rotation from the stored yaw to the target angle, as
  \<^verbatim>\<open>updateRotation\<close> computes it before scaling.
\<close>

definition angleDiff :: "real \<Rightarrow> real \<Rightarrow> real" where
  "angleDiff targetAngle rotation_y =
     (let currentAngle = wrap_up (wrap_down rotation_y);
          d = targetAngle - currentAngle;
          d = (if d > pi then d - pi * 2 else d);
          d = (if d < - pi then d + pi * 2 else d)
      in d)"

definition updateRotation :: "vec2 \<Rightarrow> real \<Rightarrow> controller \<Rightarrow> controller" where
  "updateRotation inputDirection deltaTime c =
     (if dx inputDirection \<noteq> 0 \<or> dz inputDirection \<noteq> 0 then
        let targetAngle = atan2 (dx inputDirection) (dz inputDirection);
            rotationAmount =
              angleDiff targetAngle (vy (rotation (state c))) * rotationSpeed (options c) * deltaTime;
            r = (rotation (state c))\<lparr>vy := vy (rotation (state c)) + rotationAmount\<rparr>
        in c\<lparr>state := (state c)\<lparr>rotation := r,
                                   direction := \<lparr>dx = sin (vy r), dz = cos (vy r)\<rparr>\<rparr>\<rparr>
      else c)"

section \<open>The fallback integrator\<close>

text \<open>
  \<^verbatim>\<open>updateFallbackMovement\<close> runs its blocks in the order of the source; each block
  is a function of its own so that a property of one block can be stated.
\<close>

definition moving :: "vec2 \<Rightarrow> bool" where
  "moving inputDirection \<longleftrightarrow> dx inputDirection \<noteq> 0 \<or> dz inputDirection \<noteq> 0"

text \<open>Gravity, and the reset of the jump flag while grounded.\<close>

definition fallback_gravity :: "real \<Rightarrow> controller \<Rightarrow> controller" where
  "fallback_gravity deltaTime c =
     (let s = state c in
      if \<not> isGrounded s then
        c\<lparr>state := s\<lparr>velocity := (velocity s)\<lparr>vy := vy (velocity s) - 981 / 100 * deltaTime\<rparr>\<rparr>\<rparr>
      else
        c\<lparr>state := s\<lparr>velocity := (velocity s)\<lparr>vy := 0\<rparr>,
                       isJumping := (if isJumping s then False else isJumping s)\<rparr>\<rparr>)"

text \<open>The cooldown timer, the same statement in \<^verbatim>\<open>update\<close> and in the fallback.\<close>

definition cooldown_tick :: "real \<Rightarrow> controller \<Rightarrow> controller" where
  "cooldown_tick deltaTime c =
     (let s = state c in
      if jumpCooldownTimer s > 0 then
        c\<lparr>state := s\<lparr>jumpCooldownTimer := jumpCooldownTimer s - deltaTime\<rparr>\<rparr>
      else c)"

definition fallback_jump :: "input \<Rightarrow> controller \<Rightarrow> controller" where
  "fallback_jump inp c =
     (let s = state c in
      if input_isJumping inp \<and> isGrounded s \<and> jumpCooldownTimer s \<le> 0 then
        c\<lparr>state := s\<lparr>velocity := (velocity s)\<lparr>vy := jumpForce (options c) * (1 / 10)\<rparr>,
                       isJumping := True,
                       isGrounded := False,
                       jumpCooldownTimer := jumpCooldown (options c)\<rparr>\<rparr>
      else c)"

text \<open>Horizontal velocity: forward and strafe while there is input, decay otherwise.\<close>

definition fallback_horizontal :: "vec2 \<Rightarrow> controller \<Rightarrow> controller" where
  "fallback_horizontal inputDirection c =
     (let s = state c; d = direction s; v = velocity s in
      if moving inputDirection then
        let speed = moveSpeed (options c) * (if isGrounded s then 1 else airControl (options c));
            x1 = dx d * dz inputDirection * speed;
            z1 = dz d * dz inputDirection * speed;
            x2 = x1 + - dz d * dx inputDirection * speed;
            z2 = z1 + dx d * dx inputDirection * speed
        in c\<lparr>state := s\<lparr>velocity := v\<lparr>vx := x2, vz := z2\<rparr>\<rparr>\<rparr>
      else
        let x1 = vx v * (9 / 10);
            z1 = vz v * (9 / 10);
            x2 = (if \<bar>x1\<bar> < 1 / 100 then 0 else x1);
            z2 = (if \<bar>z1\<bar> < 1 / 100 then 0 else z1)
        in c\<lparr>state := s\<lparr>velocity := v\<lparr>vx := x2, vz := z2\<rparr>\<rparr>\<rparr>)"

definition fallback_integrate :: "real \<Rightarrow> controller \<Rightarrow> controller" where
  "fallback_integrate deltaTime c =
     (let s = state c; v = velocity s; p = position s in
      c\<lparr>state := s\<lparr>position := \<lparr>vx = vx p + vx v * deltaTime,
                                    vy = vy p + vy v * deltaTime,
                                    vz = vz p + vz v * deltaTime\<rparr>\<rparr>\<rparr>)"

text \<open>The ground plane at the resting height 1.\<close>

definition fallback_ground :: "controller \<Rightarrow> controller" where
  "fallback_ground c =
     (let s = state c in
      if vy (position s) < 1 then
        c\<lparr>state := s\<lparr>position := (position s)\<lparr>vy := 1\<rparr>, isGrounded := True\<rparr>\<rparr>
      else c\<lparr>state := s\<lparr>isGrounded := False\<rparr>\<rparr>)"

definition updateFallbackMovement :: "input \<Rightarrow> real \<Rightarrow> controller \<Rightarrow> controller" where
  "updateFallbackMovement inp deltaTime c =
     (let inputDirection = getMovementDirection inp;
          c = c\<lparr>state := (state c)\<lparr>movementDirection := inputDirection\<rparr>\<rparr>;
          c = updateRotation inputDirection deltaTime c;
          c = fallback_gravity deltaTime c;
          c = cooldown_tick deltaTime c;
          c = fallback_jump inp c;
          c = fallback_horizontal inputDirection c;
          c = fallback_integrate deltaTime c
      in fallback_ground c)"

section \<open>The physics path\<close>

text \<open>
  The velocity \<^verbatim>\<open>handleMovement\<close> hands to the engine: the horizontal part from the
  input, the vertical part as stored in the state.
\<close>

definition targetVelocity :: "vec2 \<Rightarrow> controller \<Rightarrow> vec3" where
  "targetVelocity inputDirection c =
     (let s = state c; d = direction s;
          speed = moveSpeed (options c) * (if isGrounded s then 1 else airControl (options c));
          t = \<lparr>vx = 0, vy = vy (velocity s), vz = 0\<rparr>
      in if moving inputDirection then
           let x1 = dx d * dz inputDirection * speed;
               z1 = dz d * dz inputDirection * speed;
               x2 = x1 + - dz d * dx inputDirection * speed;
               z2 = z1 + dx d * dx inputDirection * speed
           in t\<lparr>vx := x2, vz := z2\<rparr>
         else t)"

text \<open>
  \<^verbatim>\<open>handleMovement\<close> and \<^verbatim>\<open>handleJump\<close> have a handler of their own: a throwing
  call sets the flag and the method returns normally.
\<close>

definition handleMovement :: "physics \<Rightarrow> input \<Rightarrow> real \<Rightarrow> controller \<Rightarrow> controller" where
  "handleMovement ph inp deltaTime c =
     (let t = targetVelocity (getMovementDirection inp) c;
          c = c\<lparr>issued := issued c @ [SetBodyVelocity t]\<rparr>
      in case phys_setBodyVelocity ph t of
           Throws \<Rightarrow> c\<lparr>usingFallback := True\<rparr>
         | Returns u \<Rightarrow> c)"

definition landing_reset :: "controller \<Rightarrow> controller" where
  "landing_reset c =
     (let s = state c in
      if isGrounded s \<and> isJumping s then c\<lparr>state := s\<lparr>isJumping := False\<rparr>\<rparr> else c)"

definition handleJump :: "physics \<Rightarrow> input \<Rightarrow> real \<Rightarrow> controller \<Rightarrow> controller" where
  "handleJump ph inp deltaTime c =
     (let s = state c in
      if input_isJumping inp \<and> isGrounded s \<and> jumpCooldownTimer s \<le> 0 then
        let i = \<lparr>vx = 0, vy = jumpForce (options c), vz = 0\<rparr>;
            c = c\<lparr>issued := issued c @ [ApplyImpulse i]\<rparr>
        in case phys_applyImpulse ph i of
             Throws \<Rightarrow> c\<lparr>usingFallback := True\<rparr>
           | Returns u \<Rightarrow>
               landing_reset
                 (c\<lparr>state := s\<lparr>isJumping := True,
                                 isGrounded := False,
                                 jumpCooldownTimer := jumpCooldown (options c)\<rparr>\<rparr>)
      else landing_reset c)"

text \<open>
  The \<^verbatim>\<open>try\<close> block of \<^verbatim>\<open>update\<close>: it completes, or a call throws and the
  handler of \<^verbatim>\<open>update\<close> receives the controller as mutated so far.
\<close>

datatype attempt = Completed controller | Aborted controller

definition update_try :: "physics \<Rightarrow> input \<Rightarrow> real \<Rightarrow> controller \<Rightarrow> attempt" where
  "update_try ph inp deltaTime c =
     (case phys_isGrounded ph of
        Throws \<Rightarrow> Aborted c
      | Returns g \<Rightarrow>
          (let c = c\<lparr>state := (state c)\<lparr>isGrounded := g\<rparr>\<rparr>;
               c = cooldown_tick deltaTime c
           in (case body_linvel ph of
                 Throws \<Rightarrow> Aborted c
               | Returns cv \<Rightarrow>
                   (let c = c\<lparr>state := (state c)\<lparr>velocity := \<lparr>vx = vx cv, vy = vy cv, vz = vz cv\<rparr>\<rparr>\<rparr>;
                        inputDirection = getMovementDirection inp;
                        c = c\<lparr>state := (state c)\<lparr>movementDirection := inputDirection\<rparr>\<rparr>;
                        c = updateRotation inputDirection deltaTime c;
                        c = handleMovement ph inp deltaTime c;
                        c = handleJump ph inp deltaTime c
                    in (case phys_getBodyPosition ph of
                          Throws \<Rightarrow> Aborted c
                        | Returns p \<Rightarrow> Completed (c\<lparr>state := (state c)\<lparr>position := p\<rparr>\<rparr>))))))"

text \<open>\<^verbatim>\<open>!this.character || !this.character.body\<close>.\<close>

definition no_body :: "controller \<Rightarrow> bool" where
  "no_body c \<longleftrightarrow> (case character c of None \<Rightarrow> True | Some h \<Rightarrow> \<not> has_body h)"

definition update :: "physics \<Rightarrow> input \<Rightarrow> real \<Rightarrow> controller \<Rightarrow> controller" where
  "update ph inp deltaTime c =
     (if usingFallback c then updateFallbackMovement inp deltaTime c
      else if no_body c then updateFallbackMovement inp deltaTime (c\<lparr>usingFallback := True\<rparr>)
      else (case update_try ph inp deltaTime c of
              Completed c' \<Rightarrow> c'
            | Aborted c' \<Rightarrow> updateFallbackMovement inp deltaTime (c'\<lparr>usingFallback := True\<rparr>)))"

definition getPosition :: "physics \<Rightarrow> controller \<Rightarrow> vec3 \<times> controller" where
  "getPosition ph c =
     (if usingFallback c then (position (state c), c)
      else if no_body c then (position (state c), c\<lparr>usingFallback := True\<rparr>)
      else (case phys_getBodyPosition ph of
              Throws \<Rightarrow> (position (state c), c\<lparr>usingFallback := True\<rparr>)
            | Returns p \<Rightarrow> (p, c\<lparr>state := (state c)\<lparr>position := p\<rparr>\<rparr>)))"

definition getState :: "controller \<Rightarrow> char_state \<times> controller" where
  "getState c = (state c, c)"

section \<open>Construction and runs\<close>

definition initial_state :: char_state where
  "initial_state =
     \<lparr>isGrounded = False, isJumping = False, jumpCooldownTimer = 0,
      velocity = \<lparr>vx = 0, vy = 0, vz = 0\<rparr>,
      position = \<lparr>vx = 0, vy = 1, vz = 0\<rparr>,
      rotation = \<lparr>vx = 0, vy = 0, vz = 0\<rparr>,
      direction = \<lparr>dx = 0, dz = - 1\<rparr>,
      movementDirection = \<lparr>dx = 0, dz = 0\<rparr>\<rparr>"

text \<open>
  The constructor, given what \<^verbatim>\<open>physics.createCharacter\<close> did: it threw, it returned
  \<^verbatim>\<open>null\<close>, or it returned a handle.
\<close>

definition CharacterController :: "char_handle option outcome \<Rightarrow> char_options \<Rightarrow> controller" where
  "CharacterController created opts =
     (let c = \<lparr>options = opts, state = initial_state, usingFallback = True,
               character = None, issued = []\<rparr>
      in case created of
           Throws \<Rightarrow> c\<lparr>character := None\<rparr>
         | Returns ch \<Rightarrow>
             (case ch of
                None \<Rightarrow> c\<lparr>character := ch\<rparr>
              | Some h \<Rightarrow>
                  if has_body h \<and> translation_is_function h
                  then c\<lparr>character := ch, usingFallback := False\<rparr>
                  else c\<lparr>character := ch\<rparr>))"

text \<open>
  \<^verbatim>\<open>PhysicsWorld.createCharacter\<close>: \<^verbatim>\<open>null\<close> before initialisation, otherwise a
  handle with a body, the engine's or the stand-in of \<^verbatim>\<open>createFallbackBody\<close>.
\<close>

definition PhysicsWorld_createCharacter :: "world \<Rightarrow> char_handle option outcome" where
  "PhysicsWorld_createCharacter w =
     (if \<not> initialized w then Returns None
      else Returns (Some \<lparr>has_body = True, translation_is_function = True\<rparr>))"

text \<open>A caller's view: a sequence of method calls, each with what the engine does then.\<close>

datatype call = Update physics input real | GetPosition physics | GetState

fun step :: "controller \<Rightarrow> call \<Rightarrow> controller" where
  "step c (Update ph inp deltaTime) = update ph inp deltaTime c"
| "step c (GetPosition ph) = snd (getPosition ph c)"
| "step c GetState = snd (getState c)"

fun run :: "controller \<Rightarrow> call list \<Rightarrow> controller" where
  "run c [] = c"
| "run c (k # ks) = run (step c k) ks"

text \<open>
  The mode after each call of a run, and the number of changes from physics to fallback
  along it.
\<close>

fun trace :: "controller \<Rightarrow> call list \<Rightarrow> bool list" where
  "trace c [] = [usingFallback c]"
| "trace c (k # ks) = usingFallback c # trace (step c k) ks"

fun degrades :: "bool list \<Rightarrow> nat" where
  "degrades (a # b # bs) = (if \<not> a \<and> b then 1 else 0) + degrades (b # bs)"
| "degrades bs = 0"

text \<open>A call whose time step, if it has one, lies between 0 and \<open>D\<close>.\<close>

definition frame_within :: "real \<Rightarrow> call \<Rightarrow> bool" where
  "frame_within D k \<longleftrightarrow> (case k of Update ph inp dt \<Rightarrow> 0 \<le> dt \<and> dt \<le> D | _ \<Rightarrow> True)"

text \<open>An \<^verbatim>\<open>update\<close> with no movement input and a zero time step.\<close>

definition null_frame :: "call \<Rightarrow> bool" where
  "null_frame k \<longleftrightarrow>
     (case k of Update ph inp dt \<Rightarrow> \<not> moving (getMovementDirection inp) \<and> dt = 0 | _ \<Rightarrow> False)"

section \<open>Concrete controllers, inputs and engines\<close>

text \<open>A controller whose construction failed: it starts in fallback mode.\<close>

definition fb0 :: controller where
  "fb0 = CharacterController Throws default_options"

definition still :: input where
  "still = \<lparr>getMovementDirection = \<lparr>dx = 0, dz = 0\<rparr>, input_isJumping = False\<rparr>"

definition jump :: input where
  "jump = \<lparr>getMovementDirection = \<lparr>dx = 0, dz = 0\<rparr>, input_isJumping = True\<rparr>"

text \<open>
  An initialised world whose ray cast hits, a body at rest at a given place, and the
  controller constructed on that world: it starts in physics mode.
\<close>

definition live_world :: world where
  "live_world = \<lparr>initialized = True, castRay = Returns True\<rparr>"

definition body_at :: "vec3 \<Rightarrow> body" where
  "body_at p =
     \<lparr>translation = Returns p,
      linvel = Returns \<lparr>vx = 0, vy = 0, vz = 0\<rparr>,
      setLinvel = (\<lambda>v. Returns ()),
      applyImpulse = (\<lambda>i. Returns ())\<rparr>"

definition spawn :: vec3 where
  "spawn = \<lparr>vx = 0, vy = 5, vz = 0\<rparr>"

definition phys0 :: controller where
  "phys0 = CharacterController (PhysicsWorld_createCharacter live_world) default_options"

text \<open>Bodies on which one engine method throws.\<close>

definition no_translation :: body where
  "no_translation = (body_at spawn)\<lparr>translation := Throws\<rparr>"

definition no_linvel :: body where
  "no_linvel = (body_at spawn)\<lparr>linvel := Throws\<rparr>"

definition no_setLinvel :: body where
  "no_setLinvel = (body_at spawn)\<lparr>setLinvel := (\<lambda>v. Throws)\<rparr>"

text \<open>
  Physics objects other than \<^verbatim>\<open>PhysicsWorld\<close>: one whose ground probe throws, one
  whose \<^verbatim>\<open>setBodyVelocity\<close> throws, one whose \<^verbatim>\<open>applyImpulse\<close> throws.
\<close>

definition probe_throws :: physics where
  "probe_throws =
     \<lparr>phys_isGrounded = Throws,
      body_linvel = Returns \<lparr>vx = 0, vy = 0, vz = 0\<rparr>,
      phys_setBodyVelocity = (\<lambda>v. Returns ()),
      phys_applyImpulse = (\<lambda>i. Returns ()),
      phys_getBodyPosition = Returns spawn\<rparr>"

definition set_throws :: physics where
  "set_throws =
     \<lparr>phys_isGrounded = Returns True,
      body_linvel = Returns \<lparr>vx = 0, vy = 0, vz = 0\<rparr>,
      phys_setBodyVelocity = (\<lambda>v. Throws),
      phys_applyImpulse = (\<lambda>i. Returns ()),
      phys_getBodyPosition = Returns spawn\<rparr>"

definition impulse_throws :: physics where
  "impulse_throws =
     \<lparr>phys_isGrounded = Returns True,
      body_linvel = Returns \<lparr>vx = 0, vy = 0, vz = 0\<rparr>,
      phys_setBodyVelocity = (\<lambda>v. Returns ()),
      phys_applyImpulse = (\<lambda>i. Throws),
      phys_getBodyPosition = Returns spawn\<rparr>"

definition falling :: body where
  "falling = (body_at spawn)\<lparr>linvel := Returns \<lparr>vx = 0, vy = - 2, vz = 0\<rparr>\<rparr>"

text \<open>The healthy engine with the body at its spawn point.\<close>

definition engine0 :: physics where
  "engine0 = PhysicsWorld live_world (body_at spawn)"

text \<open>The movement vector whose target angle is \<open>\<pi>\<close>.\<close>

definition south :: vec2 where
  "south = \<lparr>dx = 0, dz = - 1\<rparr>"

text \<open>
  A body that rests, grounded, at height 0.5; the controller after one healthy frame on
  it; and the same body once its velocity read throws.
\<close>

definition low :: vec3 where
  "low = \<lparr>vx = 0, vy = 1 / 2, vz = 0\<rparr>"

definition low1 :: controller where
  "low1 = update (PhysicsWorld live_world (body_at low)) still (1 / 10) phys0"

definition low_no_linvel :: body where
  "low_no_linvel = (body_at low)\<lparr>linvel := Throws\<rparr>"

text \<open>A body on which the position and the velocity reads both throw.\<close>

definition dead_body :: body where
  "dead_body = (body_at spawn)\<lparr>translation := Throws, linvel := Throws\<rparr>"

text \<open>
  The fallback controller two frames after it started a jump: in the air, about to land.
\<close>

definition airborne :: controller where
  "airborne = run fb0 [Update engine0 still (1 / 10), Update engine0 jump (1 / 10),
                       Update engine0 still (1 / 10), Update engine0 still (1 / 10)]"

text \<open>
  Controllers just after the start of a jump, with the timer at the configured cooldown:
  one in fallback mode, one in physics mode.
\<close>

definition aloft :: controller where
  "aloft = run fb0 [Update engine0 still (2 / 25), Update engine0 jump (2 / 25)]"

definition aloft_physics :: controller where
  "aloft_physics = update engine0 jump (2 / 25) phys0"

section \<open>Facts about the blocks\<close>

lemmas fallback_defs = updateFallbackMovement_def updateRotation_def fallback_gravity_def
  cooldown_tick_def fallback_jump_def fallback_horizontal_def fallback_integrate_def
  fallback_ground_def moving_def

lemmas scenario_defs = fb0_def still_def jump_def CharacterController_def initial_state_def
  default_options_def live_world_def body_at_def spawn_def phys0_def engine0_def
  PhysicsWorld_createCharacter_def no_translation_def no_linvel_def no_body_def

lemmas physics_defs = update_def update_try_def handleMovement_def handleJump_def
  landing_reset_def targetVelocity_def PhysicsWorld_isGrounded_def
  PhysicsWorld_getBodyPosition_def

subsection \<open>The ground block\<close>

lemma fallback_ground_floor: "1 \<le> vy (position (state (fallback_ground c)))"
  by (simp add: fallback_ground_def Let_def)

lemma fallback_ground_grounded:
  "isGrounded (state (fallback_ground c)) \<Longrightarrow> vy (position (state (fallback_ground c))) = 1"
  by (simp add: fallback_ground_def Let_def split: if_splits)

subsection \<open>What each block leaves alone\<close>

lemma blocks_mode [simp]:
  "usingFallback (updateRotation d dt c) = usingFallback c"
  "usingFallback (fallback_gravity dt c) = usingFallback c"
  "usingFallback (cooldown_tick dt c) = usingFallback c"
  "usingFallback (fallback_jump inp c) = usingFallback c"
  "usingFallback (fallback_horizontal d c) = usingFallback c"
  "usingFallback (fallback_integrate dt c) = usingFallback c"
  "usingFallback (fallback_ground c) = usingFallback c"
  by (simp_all add: fallback_defs Let_def)

lemma updateFallbackMovement_mode [simp]:
  "usingFallback (updateFallbackMovement inp dt c) = usingFallback c"
  by (simp add: updateFallbackMovement_def Let_def)

lemma blocks_options [simp]:
  "options (updateRotation d dt c) = options c"
  "options (fallback_gravity dt c) = options c"
  "options (cooldown_tick dt c) = options c"
  "options (fallback_jump inp c) = options c"
  "options (fallback_horizontal d c) = options c"
  "options (fallback_integrate dt c) = options c"
  "options (fallback_ground c) = options c"
  by (simp_all add: fallback_defs Let_def)

lemma updateFallbackMovement_options [simp]:
  "options (updateFallbackMovement inp dt c) = options c"
  by (simp add: updateFallbackMovement_def Let_def)

lemma blocks_character [simp]:
  "character (updateRotation d dt c) = character c"
  "character (fallback_gravity dt c) = character c"
  "character (cooldown_tick dt c) = character c"
  "character (fallback_jump inp c) = character c"
  "character (fallback_horizontal d c) = character c"
  "character (fallback_integrate dt c) = character c"
  "character (fallback_ground c) = character c"
  by (simp_all add: fallback_defs Let_def)

lemma updateFallbackMovement_character [simp]:
  "character (updateFallbackMovement inp dt c) = character c"
  by (simp add: updateFallbackMovement_def Let_def)

lemma blocks_state [simp]:
  "isGrounded (state (updateRotation d dt c)) = isGrounded (state c)"
  "isJumping (state (updateRotation d dt c)) = isJumping (state c)"
  "jumpCooldownTimer (state (updateRotation d dt c)) = jumpCooldownTimer (state c)"
  "velocity (state (updateRotation d dt c)) = velocity (state c)"
  "position (state (updateRotation d dt c)) = position (state c)"
  "movementDirection (state (updateRotation d dt c)) = movementDirection (state c)"
  "isGrounded (state (fallback_gravity dt c)) = isGrounded (state c)"
  "jumpCooldownTimer (state (fallback_gravity dt c)) = jumpCooldownTimer (state c)"
  "position (state (fallback_gravity dt c)) = position (state c)"
  "rotation (state (fallback_gravity dt c)) = rotation (state c)"
  "direction (state (fallback_gravity dt c)) = direction (state c)"
  "movementDirection (state (fallback_gravity dt c)) = movementDirection (state c)"
  "isGrounded (state (cooldown_tick dt c)) = isGrounded (state c)"
  "isJumping (state (cooldown_tick dt c)) = isJumping (state c)"
  "velocity (state (cooldown_tick dt c)) = velocity (state c)"
  "position (state (cooldown_tick dt c)) = position (state c)"
  "rotation (state (cooldown_tick dt c)) = rotation (state c)"
  "direction (state (cooldown_tick dt c)) = direction (state c)"
  "movementDirection (state (cooldown_tick dt c)) = movementDirection (state c)"
  "position (state (fallback_jump inp c)) = position (state c)"
  "rotation (state (fallback_jump inp c)) = rotation (state c)"
  "direction (state (fallback_jump inp c)) = direction (state c)"
  "movementDirection (state (fallback_jump inp c)) = movementDirection (state c)"
  "isGrounded (state (fallback_horizontal d c)) = isGrounded (state c)"
  "isJumping (state (fallback_horizontal d c)) = isJumping (state c)"
  "jumpCooldownTimer (state (fallback_horizontal d c)) = jumpCooldownTimer (state c)"
  "position (state (fallback_horizontal d c)) = position (state c)"
  "rotation (state (fallback_horizontal d c)) = rotation (state c)"
  "direction (state (fallback_horizontal d c)) = direction (state c)"
  "movementDirection (state (fallback_horizontal d c)) = movementDirection (state c)"
  "isGrounded (state (fallback_integrate dt c)) = isGrounded (state c)"
  "isJumping (state (fallback_integrate dt c)) = isJumping (state c)"
  "jumpCooldownTimer (state (fallback_integrate dt c)) = jumpCooldownTimer (state c)"
  "velocity (state (fallback_integrate dt c)) = velocity (state c)"
  "rotation (state (fallback_integrate dt c)) = rotation (state c)"
  "direction (state (fallback_integrate dt c)) = direction (state c)"
  "movementDirection (state (fallback_integrate dt c)) = movementDirection (state c)"
  "isJumping (state (fallback_ground c)) = isJumping (state c)"
  "jumpCooldownTimer (state (fallback_ground c)) = jumpCooldownTimer (state c)"
  "velocity (state (fallback_ground c)) = velocity (state c)"
  "rotation (state (fallback_ground c)) = rotation (state c)"
  "direction (state (fallback_ground c)) = direction (state c)"
  "movementDirection (state (fallback_ground c)) = movementDirection (state c)"
  by (simp_all add: fallback_defs Let_def)

subsection \<open>The mode along a run\<close>

lemma step_keeps_fallback: "usingFallback c \<Longrightarrow> usingFallback (step c k)"
  by (cases k) (simp_all add: update_def getPosition_def getState_def)

lemma run_keeps_fallback: "usingFallback c \<Longrightarrow> usingFallback (run c ks)"
  by (induction ks arbitrary: c) (simp_all add: step_keeps_fallback)

lemma trace_hd: "trace c ks = usingFallback c # tl (trace c ks)"
  by (cases ks) simp_all

lemma degrades_fallback: "usingFallback c \<Longrightarrow> degrades (trace c ks) = 0"
proof (induction ks arbitrary: c)
  case Nil
  then show ?case by simp
next
  case (Cons k ks)
  have "usingFallback (step c k)" using Cons.prems by (rule step_keeps_fallback)
  then have "degrades (trace (step c k) ks) = 0" by (rule Cons.IH)
  moreover obtain r where "trace (step c k) ks = usingFallback (step c k) # r"
    using trace_hd by blast
  ultimately show ?case using Cons.prems by simp
qed

lemma degrades_le_one: "degrades (trace c ks) \<le> 1"
proof (induction ks arbitrary: c)
  case Nil
  then show ?case by simp
next
  case (Cons k ks)
  obtain r where r: "trace (step c k) ks = usingFallback (step c k) # r"
    using trace_hd by blast
  show ?case
  proof (cases "usingFallback (step c k)")
    case True
    then have "degrades (trace (step c k) ks) = 0" by (rule degrades_fallback)
    then show ?thesis using r by simp
  next
    case False
    then show ?thesis using Cons.IH [of "step c k"] r by simp
  qed
qed

subsection \<open>The physics path with the wrappers of PhysicsWorld\<close>

lemma PhysicsWorld_never_throws [simp]:
  "PhysicsWorld_setBodyVelocity b v = Returns ()"
  "PhysicsWorld_applyImpulse b i = Returns ()"
  by (simp_all add: PhysicsWorld_setBodyVelocity_def PhysicsWorld_applyImpulse_def
      split: option.split outcome.split)

lemma PhysicsWorld_fields [simp]:
  "phys_isGrounded (PhysicsWorld w b) = Returns (PhysicsWorld_isGrounded w (Some b))"
  "body_linvel (PhysicsWorld w b) = linvel b"
  "phys_setBodyVelocity (PhysicsWorld w b) = PhysicsWorld_setBodyVelocity (Some b)"
  "phys_applyImpulse (PhysicsWorld w b) = PhysicsWorld_applyImpulse (Some b)"
  "phys_getBodyPosition (PhysicsWorld w b) = Returns (PhysicsWorld_getBodyPosition (Some b))"
  by (simp_all add: PhysicsWorld_def)

lemma targetVelocity_vy [simp]: "vy (targetVelocity d c) = vy (velocity (state c))"
  by (simp add: targetVelocity_def Let_def)

lemma handleMovement_frame [simp]:
  "state (handleMovement ph inp dt c) = state c"
  "options (handleMovement ph inp dt c) = options c"
  "character (handleMovement ph inp dt c) = character c"
  "issued (handleMovement ph inp dt c) =
     issued c @ [SetBodyVelocity (targetVelocity (getMovementDirection inp) c)]"
  by (simp_all add: handleMovement_def Let_def split: outcome.split)

lemma handleMovement_mode:
  "usingFallback (handleMovement ph inp dt c) \<longleftrightarrow>
     usingFallback c \<or>
     phys_setBodyVelocity ph (targetVelocity (getMovementDirection inp) c) = Throws"
  by (simp add: handleMovement_def Let_def split: outcome.split)

lemma landing_reset_frame [simp]:
  "usingFallback (landing_reset c) = usingFallback c"
  "options (landing_reset c) = options c"
  "character (landing_reset c) = character c"
  "issued (landing_reset c) = issued c"
  "isGrounded (state (landing_reset c)) = isGrounded (state c)"
  "jumpCooldownTimer (state (landing_reset c)) = jumpCooldownTimer (state c)"
  "velocity (state (landing_reset c)) = velocity (state c)"
  "position (state (landing_reset c)) = position (state c)"
  "rotation (state (landing_reset c)) = rotation (state c)"
  by (simp_all add: landing_reset_def Let_def)

lemma handleJump_frame [simp]:
  "options (handleJump ph inp dt c) = options c"
  "character (handleJump ph inp dt c) = character c"
  "velocity (state (handleJump ph inp dt c)) = velocity (state c)"
  "position (state (handleJump ph inp dt c)) = position (state c)"
  "rotation (state (handleJump ph inp dt c)) = rotation (state c)"
  by (simp_all add: handleJump_def Let_def split: outcome.split)

lemma handleJump_mode:
  "usingFallback (handleJump ph inp dt c) \<longleftrightarrow>
     usingFallback c \<or>
     (input_isJumping inp \<and> isGrounded (state c) \<and> jumpCooldownTimer (state c) \<le> 0 \<and>
      phys_applyImpulse ph \<lparr>vx = 0, vy = jumpForce (options c), vz = 0\<rparr> = Throws)"
  by (auto simp: handleJump_def Let_def split: outcome.split)

lemma handleJump_issued:
  "\<exists>r. issued (handleJump ph inp dt c) = issued c @ r \<and> (\<forall>t. SetBodyVelocity t \<notin> set r)"
  by (simp add: handleJump_def Let_def split: outcome.split)

lemma update_try_PhysicsWorld_mode:
  "update_try (PhysicsWorld w b) inp dt c = Completed c' \<Longrightarrow> usingFallback c' = usingFallback c"
  by (auto simp: update_try_def Let_def handleMovement_mode handleJump_mode split: outcome.splits)

lemma update_try_PhysicsWorld_aborts:
  "(\<exists>c'. update_try (PhysicsWorld w b) inp dt c = Aborted c') \<longleftrightarrow> linvel b = Throws"
  by (auto simp: update_try_def Let_def split: outcome.splits)

lemma blocks_issued [simp]:
  "issued (updateRotation d dt c) = issued c"
  "issued (fallback_gravity dt c) = issued c"
  "issued (cooldown_tick dt c) = issued c"
  "issued (fallback_jump inp c) = issued c"
  "issued (fallback_horizontal d c) = issued c"
  "issued (fallback_integrate dt c) = issued c"
  "issued (fallback_ground c) = issued c"
  by (simp_all add: fallback_defs Let_def)

lemma updateFallbackMovement_issued [simp]:
  "issued (updateFallbackMovement inp dt c) = issued c"
  by (simp add: updateFallbackMovement_def Let_def)

lemma blocks_vertical [simp]:
  "velocity (state (updateRotation d dt c)) = velocity (state c)"
  "velocity (state (cooldown_tick dt c)) = velocity (state c)"
  "vy (velocity (state (fallback_horizontal d c))) = vy (velocity (state c))"
  "velocity (state (fallback_integrate dt c)) = velocity (state c)"
  "velocity (state (fallback_ground c)) = velocity (state c)"
  by (simp_all add: fallback_defs Let_def)

text \<open>
  The controller as the \<^verbatim>\<open>try\<close> block has it when it reaches \<^verbatim>\<open>handleMovement\<close>,
  and what the block returns from there.
\<close>

lemma update_try_shape:
  assumes g: "phys_isGrounded ph = Returns g" and v: "body_linvel ph = Returns v"
  shows "\<exists>c3. issued c3 = issued c \<and> options c3 = options c \<and>
           usingFallback c3 = usingFallback c \<and> character c3 = character c \<and>
           velocity (state c3) = v \<and> isGrounded (state c3) = g \<and>
           isJumping (state c3) = isJumping (state c) \<and>
           jumpCooldownTimer (state c3) =
             (if 0 < jumpCooldownTimer (state c) then jumpCooldownTimer (state c) - dt
              else jumpCooldownTimer (state c)) \<and>
           position (state c3) = position (state c) \<and>
           rotation (state c3) = rotation (state (updateRotation (getMovementDirection inp) dt c)) \<and>
           update_try ph inp dt c =
             (case phys_getBodyPosition ph of
                Throws \<Rightarrow> Aborted (handleJump ph inp dt (handleMovement ph inp dt c3))
              | Returns p \<Rightarrow>
                  Completed ((handleJump ph inp dt (handleMovement ph inp dt c3))
                     \<lparr>state := (state (handleJump ph inp dt (handleMovement ph inp dt c3)))
                        \<lparr>position := p\<rparr>\<rparr>))"
proof -
  define c2 where "c2 = cooldown_tick dt (c\<lparr>state := (state c)\<lparr>isGrounded := g\<rparr>\<rparr>)"
  define c3 where "c3 = updateRotation (getMovementDirection inp) dt
        (c2\<lparr>state := (state c2)\<lparr>velocity := \<lparr>vx = vx v, vy = vy v, vz = vz v\<rparr>,
                                  movementDirection := getMovementDirection inp\<rparr>\<rparr>)"
  have t: "jumpCooldownTimer (state c2) =
             (if 0 < jumpCooldownTimer (state c) then jumpCooldownTimer (state c) - dt
              else jumpCooldownTimer (state c))"
    by (simp add: c2_def cooldown_tick_def Let_def)
  have f: "issued c2 = issued c" "options c2 = options c" "usingFallback c2 = usingFallback c"
    "character c2 = character c" "isGrounded (state c2) = g"
    "isJumping (state c2) = isJumping (state c)" "position (state c2) = position (state c)"
    "rotation (state c2) = rotation (state c)"
    by (simp_all add: c2_def)
  have r: "rotation (state c3) = rotation (state (updateRotation (getMovementDirection inp) dt c))"
    by (simp add: c3_def updateRotation_def Let_def f)
  have u: "update_try ph inp dt c =
             (case phys_getBodyPosition ph of
                Throws \<Rightarrow> Aborted (handleJump ph inp dt (handleMovement ph inp dt c3))
              | Returns p \<Rightarrow>
                  Completed ((handleJump ph inp dt (handleMovement ph inp dt c3))
                     \<lparr>state := (state (handleJump ph inp dt (handleMovement ph inp dt c3)))
                        \<lparr>position := p\<rparr>\<rparr>))"
    by (simp add: update_try_def g v Let_def c3_def c2_def split: outcome.split)
  have "issued c3 = issued c" "options c3 = options c" "usingFallback c3 = usingFallback c"
    "character c3 = character c" "velocity (state c3) = v" "isGrounded (state c3) = g"
    "isJumping (state c3) = isJumping (state c)" "position (state c3) = position (state c)"
    "jumpCooldownTimer (state c3) =
             (if 0 < jumpCooldownTimer (state c) then jumpCooldownTimer (state c) - dt
              else jumpCooldownTimer (state c))"
    by (simp_all add: c3_def f t)
  with r u show ?thesis by blast
qed

lemma update_issued:
  assumes m: "\<not> usingFallback c" "\<not> no_body c"
    and g: "phys_isGrounded ph = Returns g" and v: "body_linvel ph = Returns v"
  shows "\<exists>t r. issued (update ph inp dt c) = issued c @ SetBodyVelocity t # r \<and>
           vy t = vy v \<and> (\<forall>t'. SetBodyVelocity t' \<notin> set r)"
proof -
  obtain c3 where c3: "issued c3 = issued c" "velocity (state c3) = v"
    and t: "update_try ph inp dt c =
             (case phys_getBodyPosition ph of
                Throws \<Rightarrow> Aborted (handleJump ph inp dt (handleMovement ph inp dt c3))
              | Returns p \<Rightarrow>
                  Completed ((handleJump ph inp dt (handleMovement ph inp dt c3))
                     \<lparr>state := (state (handleJump ph inp dt (handleMovement ph inp dt c3)))
                        \<lparr>position := p\<rparr>\<rparr>))"
    using update_try_shape [OF g v, of c dt inp] by blast
  obtain r where r: "issued (handleJump ph inp dt (handleMovement ph inp dt c3)) =
                       issued (handleMovement ph inp dt c3) @ r"
    and nr: "\<forall>t. SetBodyVelocity t \<notin> set r"
    using handleJump_issued by blast
  have "issued (update ph inp dt c) = issued (handleJump ph inp dt (handleMovement ph inp dt c3))"
    using m t by (simp add: update_def split: outcome.split)
  then have "issued (update ph inp dt c) =
               issued c @ SetBodyVelocity (targetVelocity (getMovementDirection inp) c3) # r"
    using r c3 by simp
  moreover have "vy (targetVelocity (getMovementDirection inp) c3) = vy v"
    using c3 by simp
  ultimately show ?thesis using nr by blast
qed

subsection \<open>When the try block aborts\<close>

lemma update_try_aborts:
  "(\<exists>c'. update_try ph inp dt c = Aborted c') \<longleftrightarrow>
     phys_isGrounded ph = Throws \<or> body_linvel ph = Throws \<or> phys_getBodyPosition ph = Throws"
  by (auto simp: update_try_def Let_def split: outcome.splits)

lemma update_try_completed_position:
  "update_try ph inp dt c = Completed c' \<Longrightarrow> phys_getBodyPosition ph = Returns (position (state c'))"
  by (auto simp: update_try_def Let_def split: outcome.splits)

lemma update_try_completed_mode:
  "update_try ph inp dt c = Completed c' \<Longrightarrow> \<forall>t. phys_setBodyVelocity ph t = Throws \<Longrightarrow>
     usingFallback c'"
  by (auto simp: update_try_def Let_def handleJump_mode handleMovement_mode split: outcome.splits)

subsection \<open>The cooldown timer\<close>

lemma cooldown_tick_timer:
  "jumpCooldownTimer (state (cooldown_tick dt c)) =
     (if 0 < jumpCooldownTimer (state c) then jumpCooldownTimer (state c) - dt
      else jumpCooldownTimer (state c))"
  by (simp add: cooldown_tick_def Let_def)

lemma fallback_jump_timer:
  "jumpCooldownTimer (state (fallback_jump inp c)) = jumpCooldownTimer (state c) \<or>
   jumpCooldownTimer (state (fallback_jump inp c)) = jumpCooldown (options c)"
  by (simp add: fallback_jump_def Let_def)

lemma handleJump_timer:
  "jumpCooldownTimer (state (handleJump ph inp dt c)) = jumpCooldownTimer (state c) \<or>
   jumpCooldownTimer (state (handleJump ph inp dt c)) = jumpCooldown (options c)"
  by (simp add: handleJump_def Let_def split: outcome.split)

lemma updateFallbackMovement_timer:
  "jumpCooldownTimer (state (updateFallbackMovement inp dt c)) =
     jumpCooldownTimer (state (cooldown_tick dt c)) \<or>
   jumpCooldownTimer (state (updateFallbackMovement inp dt c)) = jumpCooldown (options c)"
proof -
  define c4 where "c4 = cooldown_tick dt (fallback_gravity dt
     (updateRotation (getMovementDirection inp) dt
        (c\<lparr>state := (state c)\<lparr>movementDirection := getMovementDirection inp\<rparr>\<rparr>)))"
  have t: "jumpCooldownTimer (state c4) = jumpCooldownTimer (state (cooldown_tick dt c))"
    by (simp add: c4_def cooldown_tick_timer)
  have o: "options c4 = options c" by (simp add: c4_def)
  have "jumpCooldownTimer (state (updateFallbackMovement inp dt c)) =
          jumpCooldownTimer (state (fallback_jump inp c4))"
    by (simp add: updateFallbackMovement_def Let_def c4_def)
  then show ?thesis using fallback_jump_timer [of inp c4] t o by auto
qed

lemma update_try_timer:
  assumes "update_try ph inp dt c = Completed c' \<or> update_try ph inp dt c = Aborted c'"
  shows "options c' = options c \<and>
         (jumpCooldownTimer (state c') = jumpCooldownTimer (state c) \<or>
          jumpCooldownTimer (state c') = jumpCooldownTimer (state (cooldown_tick dt c)) \<or>
          jumpCooldownTimer (state c') = jumpCooldown (options c))"
proof (cases "phys_isGrounded ph")
  case Throws
  then show ?thesis using assms by (simp add: update_try_def)
next
  case (Returns g)
  note g = this
  show ?thesis
  proof (cases "body_linvel ph")
    case Throws
    then show ?thesis using assms g
      by (auto simp: update_try_def Let_def cooldown_tick_timer)
  next
    case (Returns v)
    obtain c3 where c3: "options c3 = options c"
        "jumpCooldownTimer (state c3) = jumpCooldownTimer (state (cooldown_tick dt c))"
      and u: "update_try ph inp dt c =
             (case phys_getBodyPosition ph of
                Throws \<Rightarrow> Aborted (handleJump ph inp dt (handleMovement ph inp dt c3))
              | Returns p \<Rightarrow>
                  Completed ((handleJump ph inp dt (handleMovement ph inp dt c3))
                     \<lparr>state := (state (handleJump ph inp dt (handleMovement ph inp dt c3)))
                        \<lparr>position := p\<rparr>\<rparr>))"
      using update_try_shape [OF g Returns, of c dt inp] by (auto simp: cooldown_tick_timer)
    have t: "c' = handleJump ph inp dt (handleMovement ph inp dt c3) \<or>
              (\<exists>p. c' = (handleJump ph inp dt (handleMovement ph inp dt c3))
                 \<lparr>state := (state (handleJump ph inp dt (handleMovement ph inp dt c3)))
                    \<lparr>position := p\<rparr>\<rparr>)"
      using assms u by (auto split: outcome.splits)
    have "jumpCooldownTimer (state c') =
            jumpCooldownTimer (state (handleJump ph inp dt (handleMovement ph inp dt c3)))"
      and "options c' = options c"
      using t c3 by auto
    then show ?thesis
      using handleJump_timer [of ph inp dt "handleMovement ph inp dt c3"] c3 by auto
  qed
qed

lemma update_timer_cases:
  "jumpCooldownTimer (state (update ph inp dt c)) = jumpCooldownTimer (state c) \<or>
   (0 < jumpCooldownTimer (state c) \<and>
    jumpCooldownTimer (state (update ph inp dt c)) = jumpCooldownTimer (state c) - dt) \<or>
   (dt < jumpCooldownTimer (state c) \<and> 0 < jumpCooldownTimer (state c) \<and>
    jumpCooldownTimer (state (update ph inp dt c)) = jumpCooldownTimer (state c) - 2 * dt) \<or>
   jumpCooldownTimer (state (update ph inp dt c)) = jumpCooldown (options c) \<or>
   (0 < jumpCooldown (options c) \<and>
    jumpCooldownTimer (state (update ph inp dt c)) = jumpCooldown (options c) - dt)"
proof -
  have fb: "\<And>x. jumpCooldownTimer (state (updateFallbackMovement inp dt x)) =
      (if 0 < jumpCooldownTimer (state x) then jumpCooldownTimer (state x) - dt
       else jumpCooldownTimer (state x)) \<or>
      jumpCooldownTimer (state (updateFallbackMovement inp dt x)) = jumpCooldown (options x)"
    using updateFallbackMovement_timer by (simp add: cooldown_tick_timer)
  consider (a) "usingFallback c" | (b) "\<not> usingFallback c" "no_body c"
    | (c) c' where "\<not> usingFallback c" "\<not> no_body c" "update_try ph inp dt c = Completed c'"
    | (d) c' where "\<not> usingFallback c" "\<not> no_body c" "update_try ph inp dt c = Aborted c'"
    by (cases "update_try ph inp dt c") auto
  then show ?thesis
  proof cases
    case a
    then show ?thesis using fb [of c] by (auto simp: update_def split: if_splits)
  next
    case b
    then show ?thesis using fb [of "c\<lparr>usingFallback := True\<rparr>"]
      by (auto simp: update_def split: if_splits)
  next
    case c
    then show ?thesis using update_try_timer [of ph inp dt c c']
      by (auto simp: update_def cooldown_tick_timer split: if_splits)
  next
    case d
    have "update ph inp dt c = updateFallbackMovement inp dt (c'\<lparr>usingFallback := True\<rparr>)"
      using d by (simp add: update_def)
    then show ?thesis
      using update_try_timer [of ph inp dt c c'] d fb [of "c'\<lparr>usingFallback := True\<rparr>"]
      by (auto simp: cooldown_tick_timer split: if_splits)
  qed
qed

lemma update_timer_bound:
  assumes "0 \<le> dt" "dt \<le> D" "- D < jumpCooldownTimer (state c)" "- D < jumpCooldown (options c)"
  shows "- D < jumpCooldownTimer (state (update ph inp dt c))"
  using update_timer_cases [of ph inp dt c] assms by linarith

lemma update_options [simp]: "options (update ph inp dt c) = options c"
proof (cases "update_try ph inp dt c")
  case (Completed c')
  then show ?thesis using update_try_timer [of ph inp dt c c'] by (simp add: update_def)
next
  case (Aborted c')
  then show ?thesis using update_try_timer [of ph inp dt c c'] by (simp add: update_def)
qed

lemma step_options [simp]: "options (step c k) = options c"
  by (cases k) (simp_all add: getPosition_def getState_def split: outcome.split)

lemma step_timer_bound:
  assumes "frame_within D k" "- D < jumpCooldownTimer (state c)" "- D < jumpCooldown (options c)"
  shows "- D < jumpCooldownTimer (state (step c k))"
proof (cases k)
  case (Update ph inp dt)
  then show ?thesis using assms update_timer_bound [of dt D c ph inp]
    by (simp add: frame_within_def)
next
  case (GetPosition ph)
  then show ?thesis using assms by (simp add: getPosition_def split: outcome.split)
next
  case GetState
  then show ?thesis using assms by (simp add: getState_def)
qed

lemma run_timer_bound:
  assumes "\<forall>k\<in>set ks. frame_within D k" "- D < jumpCooldownTimer (state c)"
    "- D < jumpCooldown (options c)"
  shows "- D < jumpCooldownTimer (state (run c ks))"
  using assms
proof (induction ks arbitrary: c)
  case Nil
  then show ?case by simp
next
  case (Cons k ks)
  have "- D < jumpCooldownTimer (state (step c k))"
    using Cons.prems by (intro step_timer_bound) simp_all
  then show ?case using Cons.prems Cons.IH [of "step c k"] by simp
qed

subsection \<open>Angles\<close>

text \<open>
  The normalised yaw lies in \<open>[-\<pi>, \<pi>]\<close> and differs from the stored yaw by a multiple of
  \<open>2\<pi>\<close>; so does the target angle of \<open>atan2\<close>.
\<close>

lemma wrap_down_upper: "wrap_down a \<le> pi"
proof (induction a rule: wrap_down.induct)
  case (1 a)
  show ?case
  proof (cases "a > pi")
    case True
    then show ?thesis using 1 by (subst wrap_down.simps) simp
  next
    case False
    then show ?thesis by (subst wrap_down.simps) simp
  qed
qed

lemma wrap_down_shift: "\<exists>n::nat. wrap_down a = a - 2 * pi * real n"
proof (induction a rule: wrap_down.induct)
  case (1 a)
  show ?case
  proof (cases "a > pi")
    case True
    then obtain n :: nat where "wrap_down (a - pi * 2) = a - pi * 2 - 2 * pi * real n"
      using 1 by blast
    then have "wrap_down a = a - 2 * pi * real (Suc n)"
      using True by (subst wrap_down.simps) (simp add: algebra_simps)
    then show ?thesis by blast
  next
    case False
    then have "wrap_down a = a - 2 * pi * real (0::nat)"
      by (subst wrap_down.simps) simp
    then show ?thesis by blast
  qed
qed

lemma wrap_up_lower: "- pi \<le> wrap_up a"
proof (induction a rule: wrap_up.induct)
  case (1 a)
  show ?case
  proof (cases "a < - pi")
    case True
    then show ?thesis using 1 by (subst wrap_up.simps) simp
  next
    case False
    then show ?thesis by (subst wrap_up.simps) simp
  qed
qed

lemma wrap_up_upper: "a \<le> pi \<Longrightarrow> wrap_up a \<le> pi"
proof (induction a rule: wrap_up.induct)
  case (1 a)
  show ?case
  proof (cases "a < - pi")
    case True
    moreover have "a + pi * 2 \<le> pi" using True by simp
    ultimately show ?thesis using 1 by (subst wrap_up.simps) simp
  next
    case False
    then show ?thesis using 1 by (subst wrap_up.simps) simp
  qed
qed

lemma wrap_up_shift: "\<exists>n::nat. wrap_up a = a + 2 * pi * real n"
proof (induction a rule: wrap_up.induct)
  case (1 a)
  show ?case
  proof (cases "a < - pi")
    case True
    then obtain n :: nat where "wrap_up (a + pi * 2) = a + pi * 2 + 2 * pi * real n"
      using 1 by blast
    then have "wrap_up a = a + 2 * pi * real (Suc n)"
      using True by (subst wrap_up.simps) (simp add: algebra_simps)
    then show ?thesis by blast
  next
    case False
    then have "wrap_up a = a + 2 * pi * real (0::nat)"
      by (subst wrap_up.simps) simp
    then show ?thesis by blast
  qed
qed

lemma wrap_fixed:
  assumes "- pi \<le> a" "a \<le> pi"
  shows "wrap_up (wrap_down a) = a"
proof -
  have "wrap_down a = a" using assms by (subst wrap_down.simps) simp
  moreover have "wrap_up a = a" using assms by (subst wrap_up.simps) simp
  ultimately show ?thesis by simp
qed

lemma atan2_range: "- pi \<le> atan2 y x \<and> atan2 y x \<le> pi"
proof -
  have b: "- (pi / 2) < arctan (y / x)" "arctan (y / x) < pi / 2"
    by (rule arctan_lbound, rule arctan_ubound)
  have p: "0 < pi" by (rule pi_gt_zero)
  show ?thesis
  proof (cases "x < 0")
    case True
    note x = this
    show ?thesis
    proof (cases "0 \<le> y")
      case True
      then have "y / x \<le> 0" using x by (simp add: divide_nonneg_neg)
      then have "arctan (y / x) \<le> 0" by (simp add: arctan_le_zero_iff)
      then show ?thesis using x True b p by (simp add: atan2_def)
    next
      case False
      then have "0 < y / x" using x by (simp add: divide_neg_neg)
      then have "0 < arctan (y / x)" by (simp add: zero_less_arctan_iff)
      then show ?thesis using x False b p by (simp add: atan2_def)
    qed
  next
    case False
    then show ?thesis using b p by (auto simp: atan2_def)
  qed
qed

lemma angleDiff_range:
  assumes "- pi \<le> t" "t \<le> pi"
  shows "\<bar>angleDiff t r\<bar> \<le> pi"
proof -
  have "- pi \<le> wrap_up (wrap_down r)" "wrap_up (wrap_down r) \<le> pi"
    using wrap_up_lower wrap_up_upper wrap_down_upper by simp_all
  then show ?thesis using assms pi_gt_zero by (auto simp: angleDiff_def Let_def)
qed

lemma angleDiff_shift: "\<exists>k::int. t - r = angleDiff t r + 2 * pi * of_int k"
proof -
  obtain n :: nat where n: "wrap_down r = r - 2 * pi * real n"
    using wrap_down_shift by blast
  obtain m :: nat where m: "wrap_up (wrap_down r) = wrap_down r + 2 * pi * real m"
    using wrap_up_shift by blast
  define j :: int where "j = int m - int n"
  have c: "wrap_up (wrap_down r) = r + 2 * pi * of_int j"
    using n m by (simp add: j_def algebra_simps)
  have "angleDiff t r = t - wrap_up (wrap_down r) \<or>
        angleDiff t r = t - wrap_up (wrap_down r) - 2 * pi * of_int 1 \<or>
        angleDiff t r = t - wrap_up (wrap_down r) + 2 * pi * of_int 1"
    using pi_gt_zero by (simp add: angleDiff_def Let_def)
  then consider "t - r = angleDiff t r + 2 * pi * of_int j"
    | "t - r = angleDiff t r + 2 * pi * of_int (j + 1)"
    | "t - r = angleDiff t r + 2 * pi * of_int (j - 1)"
    using c by (auto simp: algebra_simps)
  then show ?thesis by cases blast+
qed

lemma updateRotation_yaw:
  "moving m \<Longrightarrow>
   vy (rotation (state (updateRotation m dt c))) =
     vy (rotation (state c)) +
     angleDiff (atan2 (dx m) (dz m)) (vy (rotation (state c))) * rotationSpeed (options c) * dt"
  by (simp add: updateRotation_def moving_def Let_def)

lemma atan2_south: "atan2 0 (- 1) = pi"
  by (simp add: atan2_def)

subsection \<open>Vertical motion in one fallback frame\<close>

lemma fallback_gravity_effect:
  "vy (velocity (state (fallback_gravity dt c))) =
     (if isGrounded (state c) then 0 else vy (velocity (state c)) - 981 / 100 * dt)"
  "isJumping (state (fallback_gravity dt c)) = (isJumping (state c) \<and> \<not> isGrounded (state c))"
  by (simp_all add: fallback_gravity_def Let_def)

lemma fallback_jump_effect:
  "isGrounded (state (fallback_jump inp c)) =
     (isGrounded (state c) \<and> \<not> (input_isJumping inp \<and> jumpCooldownTimer (state c) \<le> 0))"
  "isJumping (state (fallback_jump inp c)) =
     (isJumping (state c) \<or>
      (input_isJumping inp \<and> isGrounded (state c) \<and> jumpCooldownTimer (state c) \<le> 0))"
  "jumpCooldownTimer (state (fallback_jump inp c)) =
     (if input_isJumping inp \<and> isGrounded (state c) \<and> jumpCooldownTimer (state c) \<le> 0
      then jumpCooldown (options c) else jumpCooldownTimer (state c))"
  "vy (velocity (state (fallback_jump inp c))) =
     (if input_isJumping inp \<and> isGrounded (state c) \<and> jumpCooldownTimer (state c) \<le> 0
      then jumpForce (options c) * (1 / 10) else vy (velocity (state c)))"
  by (auto simp: fallback_jump_def Let_def)

lemma fallback_integrate_effect:
  "vy (position (state (fallback_integrate dt c))) =
     vy (position (state c)) + vy (velocity (state c)) * dt"
  by (simp add: fallback_integrate_def Let_def)

lemma fallback_ground_effect:
  "isGrounded (state (fallback_ground c)) = (vy (position (state c)) < 1)"
  "vy (position (state (fallback_ground c))) =
     (if vy (position (state c)) < 1 then 1 else vy (position (state c)))"
  by (simp_all add: fallback_ground_def Let_def)

lemmas fallback_effects = fallback_gravity_effect cooldown_tick_timer fallback_jump_effect
  fallback_integrate_effect fallback_ground_effect

text \<open>What one fallback frame does to the flags, the timer and the height.\<close>

lemma updateFallbackMovement_vertical:
  fixes inp dt c
  defines "g \<equiv> isGrounded (state c)"
    and "t1 \<equiv> (if 0 < jumpCooldownTimer (state c) then jumpCooldownTimer (state c) - dt
                else jumpCooldownTimer (state c))"
  defines "jumped \<equiv> input_isJumping inp \<and> g \<and> t1 \<le> 0"
  defines "v2 \<equiv> (if jumped then jumpForce (options c) * (1 / 10)
                  else if g then 0 else vy (velocity (state c)) - 981 / 100 * dt)"
  defines "y2 \<equiv> vy (position (state c)) + v2 * dt"
  shows "isJumping (state (updateFallbackMovement inp dt c)) =
           (jumped \<or> (isJumping (state c) \<and> \<not> g))"
    and "isGrounded (state (updateFallbackMovement inp dt c)) = (y2 < 1)"
    and "jumpCooldownTimer (state (updateFallbackMovement inp dt c)) =
           (if jumped then jumpCooldown (options c) else t1)"
    and "vy (position (state (updateFallbackMovement inp dt c))) = (if y2 < 1 then 1 else y2)"
  unfolding g_def t1_def jumped_def v2_def y2_def
  by (auto simp: updateFallbackMovement_def Let_def fallback_effects)

subsection \<open>The timer after one frame\<close>

lemma handleJump_timer_exact:
  assumes "\<And>i. phys_applyImpulse ph i \<noteq> Throws"
  shows "jumpCooldownTimer (state (handleJump ph inp dt c)) =
           (if input_isJumping inp \<and> isGrounded (state c) \<and> jumpCooldownTimer (state c) \<le> 0
            then jumpCooldown (options c) else jumpCooldownTimer (state c))"
  using assms [of "\<lparr>vx = 0, vy = jumpForce (options c), vz = 0\<rparr>"]
  by (auto simp: handleJump_def Let_def split: outcome.split)

lemma update_fallback_timer:
  assumes "usingFallback c \<or> no_body c"
  shows "jumpCooldownTimer (state (update ph inp dt c)) =
     (let t1 = (if 0 < jumpCooldownTimer (state c) then jumpCooldownTimer (state c) - dt
                else jumpCooldownTimer (state c))
      in if input_isJumping inp \<and> isGrounded (state c) \<and> t1 \<le> 0
         then jumpCooldown (options c) else t1)"
proof -
  have "update ph inp dt c = updateFallbackMovement inp dt c \<or>
        update ph inp dt c = updateFallbackMovement inp dt (c\<lparr>usingFallback := True\<rparr>)"
    using assms by (auto simp: update_def)
  then show ?thesis
    by (auto simp: updateFallbackMovement_vertical Let_def)
qed

lemma update_physics_timer:
  assumes m: "\<not> usingFallback c" "\<not> no_body c" and l: "linvel b \<noteq> Throws"
  shows "jumpCooldownTimer (state (update (PhysicsWorld w b) inp dt c)) =
     (let t1 = (if 0 < jumpCooldownTimer (state c) then jumpCooldownTimer (state c) - dt
                else jumpCooldownTimer (state c))
      in if input_isJumping inp \<and> PhysicsWorld_isGrounded w (Some b) \<and> t1 \<le> 0
         then jumpCooldown (options c) else t1)"
proof -
  obtain v where v: "linvel b = Returns v" using l by (cases "linvel b") auto
  obtain c3 where c3: "options c3 = options c"
      "isGrounded (state c3) = PhysicsWorld_isGrounded w (Some b)"
      "jumpCooldownTimer (state c3) =
         (if 0 < jumpCooldownTimer (state c) then jumpCooldownTimer (state c) - dt
          else jumpCooldownTimer (state c))"
    and u: "update_try (PhysicsWorld w b) inp dt c =
       Completed ((handleJump (PhysicsWorld w b) inp dt (handleMovement (PhysicsWorld w b) inp dt c3))
         \<lparr>state := (state (handleJump (PhysicsWorld w b) inp dt
                       (handleMovement (PhysicsWorld w b) inp dt c3)))
            \<lparr>position := PhysicsWorld_getBodyPosition (Some b)\<rparr>\<rparr>)"
    using update_try_shape [of "PhysicsWorld w b" "PhysicsWorld_isGrounded w (Some b)" v c dt inp] v
    by auto
  define c4 where "c4 = handleMovement (PhysicsWorld w b) inp dt c3"
  have f: "options c4 = options c" "isGrounded (state c4) = PhysicsWorld_isGrounded w (Some b)"
    "jumpCooldownTimer (state c4) =
         (if 0 < jumpCooldownTimer (state c) then jumpCooldownTimer (state c) - dt
          else jumpCooldownTimer (state c))"
    using c3 by (simp_all add: c4_def)
  have "jumpCooldownTimer (state (update (PhysicsWorld w b) inp dt c)) =
          jumpCooldownTimer (state (handleJump (PhysicsWorld w b) inp dt c4))"
    using m u by (simp add: update_def c4_def)
  then show ?thesis
    using handleJump_timer_exact [of "PhysicsWorld w b" inp dt c4] f
    by (simp add: Let_def)
qed

lemma update_degrading_timer:
  assumes m: "\<not> usingFallback c" "\<not> no_body c" and l: "linvel b = Throws"
  shows "jumpCooldownTimer (state (update (PhysicsWorld w b) inp dt c)) =
     (let t1 = (if 0 < jumpCooldownTimer (state c) then jumpCooldownTimer (state c) - dt
                else jumpCooldownTimer (state c));
          t2 = (if 0 < t1 then t1 - dt else t1)
      in if input_isJumping inp \<and> PhysicsWorld_isGrounded w (Some b) \<and> t2 \<le> 0
         then jumpCooldown (options c) else t2)"
proof -
  define c2 where "c2 = (cooldown_tick dt
     (c\<lparr>state := (state c)\<lparr>isGrounded := PhysicsWorld_isGrounded w (Some b)\<rparr>\<rparr>))\<lparr>usingFallback := True\<rparr>"
  have u: "update (PhysicsWorld w b) inp dt c = updateFallbackMovement inp dt c2"
    using m l by (simp add: update_def update_try_def c2_def Let_def)
  have f: "isGrounded (state c2) = PhysicsWorld_isGrounded w (Some b)"
    "jumpCooldownTimer (state c2) =
       (if 0 < jumpCooldownTimer (state c) then jumpCooldownTimer (state c) - dt
        else jumpCooldownTimer (state c))"
    "options c2 = options c"
    by (simp_all add: c2_def cooldown_tick_def Let_def)
  show ?thesis
    unfolding u by (simp add: updateFallbackMovement_vertical f Let_def)
qed

subsection \<open>Starting a jump\<close>

lemma handleJump_jumps:
  assumes "input_isJumping inp" "isGrounded (state c)" "jumpCooldownTimer (state c) \<le> 0"
    "phys_applyImpulse ph \<lparr>vx = 0, vy = jumpForce (options c), vz = 0\<rparr> \<noteq> Throws"
  shows "isJumping (state (handleJump ph inp dt c)) \<and> \<not> isGrounded (state (handleJump ph inp dt c)) \<and>
         jumpCooldownTimer (state (handleJump ph inp dt c)) = jumpCooldown (options c)"
  using assms by (simp add: handleJump_def landing_reset_def Let_def split: outcome.split)

lemma fallback_jumps:
  assumes "input_isJumping inp" "isGrounded (state c)" "jumpCooldownTimer (state c) \<le> 0"
    "1 \<le> vy (position (state c)) + jumpForce (options c) * (1 / 10) * dt"
  shows "isJumping (state (updateFallbackMovement inp dt c)) \<and>
         \<not> isGrounded (state (updateFallbackMovement inp dt c)) \<and>
         jumpCooldownTimer (state (updateFallbackMovement inp dt c)) = jumpCooldown (options c)"
  using assms by (simp add: updateFallbackMovement_vertical)

lemma physics_jumps:
  assumes j: "input_isJumping inp" "jumpCooldownTimer (state c) \<le> 0"
    and m: "\<not> usingFallback c" "\<not> no_body c"
    and g: "PhysicsWorld_isGrounded w (Some b)"
    and l: "linvel b = Throws \<longrightarrow> 1 \<le> vy (position (state c)) + jumpForce (options c) * (1 / 10) * dt"
  shows "isJumping (state (update (PhysicsWorld w b) inp dt c)) \<and>
         \<not> isGrounded (state (update (PhysicsWorld w b) inp dt c)) \<and>
         jumpCooldownTimer (state (update (PhysicsWorld w b) inp dt c)) = jumpCooldown (options c)"
proof (cases "linvel b")
  case Throws
  define c2 where "c2 = (cooldown_tick dt (c\<lparr>state := (state c)\<lparr>isGrounded := True\<rparr>\<rparr>))\<lparr>usingFallback := True\<rparr>"
  have u: "update (PhysicsWorld w b) inp dt c = updateFallbackMovement inp dt c2"
    using m g Throws by (simp add: update_def update_try_def c2_def Let_def)
  have "isGrounded (state c2)" "jumpCooldownTimer (state c2) \<le> 0"
    "position (state c2) = position (state c)" "options c2 = options c"
    using j by (simp_all add: c2_def cooldown_tick_def Let_def)
  then show ?thesis using fallback_jumps [of inp c2 dt] j l Throws u by simp
next
  case (Returns v)
  obtain c3 where c3: "options c3 = options c" "isGrounded (state c3) = True"
      "jumpCooldownTimer (state c3) =
         (if 0 < jumpCooldownTimer (state c) then jumpCooldownTimer (state c) - dt
          else jumpCooldownTimer (state c))"
    and u: "update_try (PhysicsWorld w b) inp dt c =
       Completed ((handleJump (PhysicsWorld w b) inp dt (handleMovement (PhysicsWorld w b) inp dt c3))
         \<lparr>state := (state (handleJump (PhysicsWorld w b) inp dt
                       (handleMovement (PhysicsWorld w b) inp dt c3)))
            \<lparr>position := PhysicsWorld_getBodyPosition (Some b)\<rparr>\<rparr>)"
    using update_try_shape [of "PhysicsWorld w b" True v c dt inp] g Returns by auto
  define c4 where "c4 = handleMovement (PhysicsWorld w b) inp dt c3"
  have "isGrounded (state c4)" "jumpCooldownTimer (state c4) \<le> 0" "options c4 = options c"
    using c3 j by (simp_all add: c4_def)
  then have "isJumping (state (handleJump (PhysicsWorld w b) inp dt c4)) \<and>
      \<not> isGrounded (state (handleJump (PhysicsWorld w b) inp dt c4)) \<and>
      jumpCooldownTimer (state (handleJump (PhysicsWorld w b) inp dt c4)) = jumpCooldown (options c)"
    using handleJump_jumps [of inp c4 "PhysicsWorld w b" dt] j by simp
  then show ?thesis using m u by (simp add: update_def c4_def)
qed

subsection \<open>Grounded and jumping together\<close>

lemma handleJump_not_both:
  assumes "\<And>i. phys_applyImpulse ph i \<noteq> Throws"
  shows "\<not> (isGrounded (state (handleJump ph inp dt c)) \<and> isJumping (state (handleJump ph inp dt c)))"
  using assms by (auto simp: handleJump_def landing_reset_def Let_def split: outcome.split)

lemma updateFallbackMovement_landing:
  "isGrounded (state (updateFallbackMovement inp dt c)) \<Longrightarrow>
   vy (position (state (updateFallbackMovement inp dt c))) = 1"
  by (simp add: updateFallbackMovement_vertical split: if_splits)

lemma fallback_both_landing:
  assumes "usingFallback x" "isGrounded (state (updateFallbackMovement inp dt x))"
  shows "usingFallback (updateFallbackMovement inp dt x) \<and>
         vy (position (state (updateFallbackMovement inp dt x))) = 1"
  using assms updateFallbackMovement_landing [of inp dt x] by simp

lemma update_both_landing:
  assumes g: "isGrounded (state (update (PhysicsWorld w b) inp dt c))"
    and j: "isJumping (state (update (PhysicsWorld w b) inp dt c))"
  shows "usingFallback (update (PhysicsWorld w b) inp dt c) \<and>
         vy (position (state (update (PhysicsWorld w b) inp dt c))) = 1"
proof -
  consider (a) "usingFallback c" | (b) "\<not> usingFallback c" "no_body c"
    | (c) c' where "\<not> usingFallback c" "\<not> no_body c"
        "update_try (PhysicsWorld w b) inp dt c = Completed c'"
    | (d) c' where "\<not> usingFallback c" "\<not> no_body c"
        "update_try (PhysicsWorld w b) inp dt c = Aborted c'"
    by (cases "update_try (PhysicsWorld w b) inp dt c") auto
  then show ?thesis
  proof cases
    case a
    then have "update (PhysicsWorld w b) inp dt c = updateFallbackMovement inp dt c"
      by (simp add: update_def)
    then show ?thesis using g a fallback_both_landing [of c inp dt] by simp
  next
    case b
    then have "update (PhysicsWorld w b) inp dt c =
        updateFallbackMovement inp dt (c\<lparr>usingFallback := True\<rparr>)"
      by (simp add: update_def)
    then show ?thesis using g fallback_both_landing [of "c\<lparr>usingFallback := True\<rparr>" inp dt] by simp
  next
    case d
    then have "update (PhysicsWorld w b) inp dt c =
        updateFallbackMovement inp dt (c'\<lparr>usingFallback := True\<rparr>)"
      by (simp add: update_def)
    then show ?thesis using g fallback_both_landing [of "c'\<lparr>usingFallback := True\<rparr>" inp dt] by simp
  next
    case c
    then have u: "update (PhysicsWorld w b) inp dt c = c'" by (simp add: update_def)
    have l: "linvel b \<noteq> Throws"
      using c update_try_PhysicsWorld_aborts [of w b inp dt c] by auto
    then obtain v where v: "linvel b = Returns v" by (cases "linvel b") auto
    obtain c3 where "c' = (handleJump (PhysicsWorld w b) inp dt (handleMovement (PhysicsWorld w b) inp dt c3))
         \<lparr>state := (state (handleJump (PhysicsWorld w b) inp dt
                       (handleMovement (PhysicsWorld w b) inp dt c3)))
            \<lparr>position := PhysicsWorld_getBodyPosition (Some b)\<rparr>\<rparr>"
      using update_try_shape [of "PhysicsWorld w b" "PhysicsWorld_isGrounded w (Some b)" v c dt inp]
        v c by auto
    then have "\<not> (isGrounded (state c') \<and> isJumping (state c'))"
      using handleJump_not_both [of "PhysicsWorld w b" inp dt
          "handleMovement (PhysicsWorld w b) inp dt c3"] by simp
    then show ?thesis using g j u by simp
  qed
qed

lemma fallback_after_landing:
  assumes "usingFallback c" "isGrounded (state c)" "vy (position (state c)) = 1"
    "0 \<le> dt" "0 \<le> jumpForce (options c)"
  shows "\<not> (isGrounded (state (update ph inp dt c)) \<and> isJumping (state (update ph inp dt c)))"
proof -
  have "0 \<le> jumpForce (options c) * dt" using assms by simp
  then show ?thesis using assms
    by (auto simp: update_def updateFallbackMovement_vertical not_less)
qed

subsection \<open>Frames without movement input\<close>

lemma updateRotation_idle: "\<not> moving d \<Longrightarrow> updateRotation d dt c = c"
  by (simp add: updateRotation_def moving_def)

lemma handleJump_idle_fields [simp]:
  "direction (state (handleJump ph inp dt c)) = direction (state c)"
  "movementDirection (state (handleJump ph inp dt c)) = movementDirection (state c)"
  by (simp_all add: handleJump_def landing_reset_def Let_def split: outcome.split)

lemma updateFallbackMovement_idle_rotation:
  "\<not> moving (getMovementDirection inp) \<Longrightarrow>
   rotation (state (updateFallbackMovement inp dt c)) = rotation (state c)"
  by (simp add: updateFallbackMovement_def Let_def updateRotation_idle)

lemma update_try_idle_rotation:
  assumes n: "\<not> moving (getMovementDirection inp)"
    and u: "update_try ph inp dt c = Completed c' \<or> update_try ph inp dt c = Aborted c'"
  shows "rotation (state c') = rotation (state c)"
proof (cases "phys_isGrounded ph")
  case Throws
  then show ?thesis using u by (simp add: update_try_def)
next
  case (Returns g)
  note g = this
  show ?thesis
  proof (cases "body_linvel ph")
    case Throws
    then show ?thesis using u g by (auto simp: update_try_def Let_def)
  next
    case (Returns v)
    obtain c3 where r: "rotation (state c3) =
        rotation (state (updateRotation (getMovementDirection inp) dt c))"
      and t: "update_try ph inp dt c =
             (case phys_getBodyPosition ph of
                Throws \<Rightarrow> Aborted (handleJump ph inp dt (handleMovement ph inp dt c3))
              | Returns p \<Rightarrow>
                  Completed ((handleJump ph inp dt (handleMovement ph inp dt c3))
                     \<lparr>state := (state (handleJump ph inp dt (handleMovement ph inp dt c3)))
                        \<lparr>position := p\<rparr>\<rparr>))"
      using update_try_shape [OF g Returns, of c dt inp] by blast
    have "rotation (state c') = rotation (state c3)"
      using u t by (auto split: outcome.splits)
    then show ?thesis using r n by (simp add: updateRotation_idle)
  qed
qed

lemma update_idle_rotation:
  assumes "\<not> moving (getMovementDirection inp)"
  shows "rotation (state (update ph inp dt c)) = rotation (state c)"
proof (cases "update_try ph inp dt c")
  case (Completed c')
  then show ?thesis
    using assms update_try_idle_rotation [of inp ph dt c c']
    by (simp add: update_def updateFallbackMovement_idle_rotation)
next
  case (Aborted c')
  then show ?thesis
    using assms update_try_idle_rotation [of inp ph dt c c']
    by (simp add: update_def updateFallbackMovement_idle_rotation)
qed

lemma updateFallbackMovement_null_position:
  assumes "1 \<le> vy (position (state c))"
  shows "position (state (updateFallbackMovement inp 0 c)) = position (state c)"
proof -
  define c6 where "c6 = fallback_horizontal (getMovementDirection inp)
     (fallback_jump inp (cooldown_tick 0 (fallback_gravity 0
        (updateRotation (getMovementDirection inp) 0
           (c\<lparr>state := (state c)\<lparr>movementDirection := getMovementDirection inp\<rparr>\<rparr>)))))"
  have p: "position (state c6) = position (state c)" by (simp add: c6_def)
  have "position (state (fallback_integrate 0 c6)) = position (state c6)"
    by (simp add: fallback_integrate_def Let_def)
  then have "position (state (fallback_ground (fallback_integrate 0 c6))) = position (state c)"
    using assms p by (simp add: fallback_ground_def Let_def)
  then show ?thesis by (simp add: updateFallbackMovement_def Let_def c6_def)
qed

lemma run_null:
  assumes "\<forall>k\<in>set ks. null_frame k"
  shows "rotation (state (run c ks)) = rotation (state c) \<and>
         (usingFallback c \<and> 1 \<le> vy (position (state c)) \<longrightarrow>
            position (state (run c ks)) = position (state c))"
  using assms
proof (induction ks arbitrary: c)
  case Nil
  then show ?case by simp
next
  case (Cons k ks)
  then obtain ph inp where k: "k = Update ph inp 0" and n: "\<not> moving (getMovementDirection inp)"
    by (cases k) (auto simp: null_frame_def)
  have r: "rotation (state (step c k)) = rotation (state c)"
    using k n by (simp add: update_idle_rotation)
  have p: "usingFallback c \<and> 1 \<le> vy (position (state c)) \<longrightarrow>
      usingFallback (step c k) \<and> position (state (step c k)) = position (state c)"
    using k by (simp add: update_def updateFallbackMovement_null_position)
  show ?case using Cons.IH [of "step c k"] Cons.prems r p by auto
qed

lemma update_PhysicsWorld_position:
  assumes "\<not> usingFallback c" "\<not> no_body c" "linvel b \<noteq> Throws"
  shows "position (state (update (PhysicsWorld w b) inp dt c)) = PhysicsWorld_getBodyPosition (Some b)"
proof -
  obtain v where v: "linvel b = Returns v" using assms by (cases "linvel b") auto
  obtain c3 where "update_try (PhysicsWorld w b) inp dt c =
       Completed ((handleJump (PhysicsWorld w b) inp dt (handleMovement (PhysicsWorld w b) inp dt c3))
         \<lparr>state := (state (handleJump (PhysicsWorld w b) inp dt
                       (handleMovement (PhysicsWorld w b) inp dt c3)))
            \<lparr>position := PhysicsWorld_getBodyPosition (Some b)\<rparr>\<rparr>)"
    using update_try_shape [of "PhysicsWorld w b" "PhysicsWorld_isGrounded w (Some b)" v c dt inp] v
    by auto
  then show ?thesis using assms by (simp add: update_def)
qed

subsection \<open>A throwing impulse\<close>

lemma handleJump_throws:
  assumes "input_isJumping inp" "isGrounded (state c)" "jumpCooldownTimer (state c) \<le> 0"
    "phys_applyImpulse ph \<lparr>vx = 0, vy = jumpForce (options c), vz = 0\<rparr> = Throws"
  shows "usingFallback (handleJump ph inp dt c) \<and> state (handleJump ph inp dt c) = state c"
  using assms by (simp add: handleJump_def Let_def)

lemma update_try_completed_jump_mode:
  assumes u: "update_try ph inp dt c = Completed c'"
    and j: "input_isJumping inp" "phys_isGrounded ph = Returns True"
      "jumpCooldownTimer (state c) \<le> 0" "\<forall>i. phys_applyImpulse ph i = Throws"
  shows "usingFallback c' \<and> isGrounded (state c') \<and> isJumping (state c') = isJumping (state c)"
proof -
  have "body_linvel ph \<noteq> Throws" using u update_try_aborts [of ph inp dt c] by auto
  then obtain v where v: "body_linvel ph = Returns v" by (cases "body_linvel ph") auto
  obtain c3 where c3: "isGrounded (state c3) = True" "isJumping (state c3) = isJumping (state c)"
      "jumpCooldownTimer (state c3) =
         (if 0 < jumpCooldownTimer (state c) then jumpCooldownTimer (state c) - dt
          else jumpCooldownTimer (state c))"
    and t: "update_try ph inp dt c =
             (case phys_getBodyPosition ph of
                Throws \<Rightarrow> Aborted (handleJump ph inp dt (handleMovement ph inp dt c3))
              | Returns p \<Rightarrow>
                  Completed ((handleJump ph inp dt (handleMovement ph inp dt c3))
                     \<lparr>state := (state (handleJump ph inp dt (handleMovement ph inp dt c3)))
                        \<lparr>position := p\<rparr>\<rparr>))"
    using update_try_shape [OF j(2) v, of c dt inp] by blast
  define c4 where "c4 = handleMovement ph inp dt c3"
  have "isGrounded (state c4)" "jumpCooldownTimer (state c4) \<le> 0"
    "isJumping (state c4) = isJumping (state c)"
    using c3 j by (simp_all add: c4_def)
  then have h: "usingFallback (handleJump ph inp dt c4) \<and> isGrounded (state (handleJump ph inp dt c4)) \<and>
      isJumping (state (handleJump ph inp dt c4)) = isJumping (state c)"
    using handleJump_throws [of inp c4 ph dt] j by simp
  obtain p where "c' = (handleJump ph inp dt c4)\<lparr>state := (state (handleJump ph inp dt c4))\<lparr>position := p\<rparr>\<rparr>"
    using u t unfolding c4_def by (cases "phys_getBodyPosition ph") auto
  then show ?thesis using h by simp
qed

lemma physics_jumps_returns:
  assumes j: "input_isJumping inp" "jumpCooldownTimer (state c) \<le> 0"
    and m: "\<not> usingFallback c" "\<not> no_body c"
    and g: "PhysicsWorld_isGrounded w (Some b)"
    and l: "linvel b \<noteq> Throws"
  shows "isJumping (state (update (PhysicsWorld w b) inp dt c)) \<and>
         \<not> isGrounded (state (update (PhysicsWorld w b) inp dt c)) \<and>
         jumpCooldownTimer (state (update (PhysicsWorld w b) inp dt c)) = jumpCooldown (options c)"
  using physics_jumps [OF j m g, of dt] l by simp

lemma physics_jumps_throws:
  assumes j: "input_isJumping inp" "jumpCooldownTimer (state c) \<le> 0"
    and m: "\<not> usingFallback c" "\<not> no_body c"
    and g: "PhysicsWorld_isGrounded w (Some b)"
    and l: "linvel b = Throws"
      "1 \<le> vy (position (state c)) + jumpForce (options c) * (1 / 10) * dt"
  shows "isJumping (state (update (PhysicsWorld w b) inp dt c)) \<and>
         \<not> isGrounded (state (update (PhysicsWorld w b) inp dt c)) \<and>
         jumpCooldownTimer (state (update (PhysicsWorld w b) inp dt c)) = jumpCooldown (options c)"
  using physics_jumps [OF j m g, of dt] l by simp

section \<open>The claims\<close>

text \<open>
  C1 (as stated it fails). With the repository's \<^verbatim>\<open>PhysicsWorld\<close>, a throwing
  \<^verbatim>\<open>body.setLinvel\<close> inside \<^verbatim>\<open>handleMovement\<close> is swallowed by the wrapper and
  the controller stays in physics mode. With a physics object whose
  \<^verbatim>\<open>setBodyVelocity\<close> does throw, the handler of \<^verbatim>\<open>handleMovement\<close> sets the
  flag, but the frame ends on the physics path: grounded at height 5, which no fallback
  frame can end with.
\<close>

theorem inner_failure_counterexample:
  "setLinvel no_setLinvel \<lparr>vx = 0, vy = 0, vz = 0\<rparr> = Throws \<and>
   \<not> usingFallback phys0 \<and>
   \<not> usingFallback (update (PhysicsWorld live_world no_setLinvel) still (1 / 10) phys0) \<and>
   phys_setBodyVelocity set_throws \<lparr>vx = 0, vy = 0, vz = 0\<rparr> = Throws \<and>
   usingFallback (update set_throws still (1 / 10) phys0) \<and>
   isGrounded (state (update set_throws still (1 / 10) phys0)) \<and>
   vy (position (state (update set_throws still (1 / 10) phys0))) = 5"
  by (simp add: scenario_defs no_setLinvel_def set_throws_def physics_defs fallback_defs
      Let_def cong: let_weak_cong)

text \<open>
  C1 (amended). In physics mode, a failure that reaches the handler of \<^verbatim>\<open>update\<close>
  (a throwing ground probe, velocity read or position read) sets the mode to fallback
  and runs \<^verbatim>\<open>updateFallbackMovement\<close> with the same input and time step, on the
  controller as the \<^verbatim>\<open>try\<close> block left it, before \<^verbatim>\<open>update\<close> returns. When
  these three calls return, the frame completes on the physics path and ends with the
  engine's position, also when \<^verbatim>\<open>setBodyVelocity\<close> throws inside
  \<^verbatim>\<open>handleMovement\<close> or \<^verbatim>\<open>applyImpulse\<close> throws inside \<^verbatim>\<open>handleJump\<close>:
  then the mode is fallback after the frame, the jump has not started, and the fallback
  integrator first runs in the next frame.
\<close>

theorem degrade_reprocesses_frame:
  assumes "\<not> usingFallback c" and "\<not> no_body c"
  shows
    "(phys_isGrounded ph = Throws \<or> body_linvel ph = Throws \<or> phys_getBodyPosition ph = Throws \<longrightarrow>
        (\<exists>c'. update_try ph inp dt c = Aborted c' \<and>
              update ph inp dt c = updateFallbackMovement inp dt (c'\<lparr>usingFallback := True\<rparr>)) \<and>
        usingFallback (update ph inp dt c)) \<and>
     (phys_isGrounded ph = Throws \<longrightarrow>
        update ph inp dt c = updateFallbackMovement inp dt (c\<lparr>usingFallback := True\<rparr>)) \<and>
     (phys_isGrounded ph \<noteq> Throws \<and> body_linvel ph \<noteq> Throws \<and> phys_getBodyPosition ph \<noteq> Throws \<longrightarrow>
        update_try ph inp dt c = Completed (update ph inp dt c) \<and>
        phys_getBodyPosition ph = Returns (position (state (update ph inp dt c))) \<and>
        ((\<forall>t. phys_setBodyVelocity ph t = Throws) \<longrightarrow> usingFallback (update ph inp dt c)) \<and>
        (input_isJumping inp \<and> phys_isGrounded ph = Returns True \<and>
         jumpCooldownTimer (state c) \<le> 0 \<and> (\<forall>i. phys_applyImpulse ph i = Throws) \<longrightarrow>
           usingFallback (update ph inp dt c) \<and> isGrounded (state (update ph inp dt c)) \<and>
           isJumping (state (update ph inp dt c)) = isJumping (state c)))"
proof (cases "update_try ph inp dt c")
  case (Completed c')
  then have n: "\<not> (phys_isGrounded ph = Throws \<or> body_linvel ph = Throws \<or> phys_getBodyPosition ph = Throws)"
    using update_try_aborts [of ph inp dt c] by auto
  have u: "update ph inp dt c = c'" using assms Completed by (simp add: update_def)
  show ?thesis
    using n u Completed update_try_completed_position [OF Completed]
      update_try_completed_mode [OF Completed] update_try_completed_jump_mode [OF Completed]
    by auto
next
  case (Aborted c')
  then have n: "phys_isGrounded ph = Throws \<or> body_linvel ph = Throws \<or> phys_getBodyPosition ph = Throws"
    using update_try_aborts [of ph inp dt c] by auto
  have u: "update ph inp dt c = updateFallbackMovement inp dt (c'\<lparr>usingFallback := True\<rparr>)"
    using assms Aborted by (simp add: update_def)
  have p: "phys_isGrounded ph = Throws \<Longrightarrow> c' = c"
    using Aborted by (simp add: update_try_def)
  show ?thesis using n u Aborted p by auto
qed

theorem degrade_reprocesses_frame_witness:
  "update probe_throws still (1 / 10) phys0 =
     updateFallbackMovement still (1 / 10) (phys0\<lparr>usingFallback := True\<rparr>) \<and>
   usingFallback (update probe_throws still (1 / 10) phys0) \<and>
   update_try set_throws still (1 / 10) phys0 = Completed (update set_throws still (1 / 10) phys0) \<and>
   usingFallback (update set_throws still (1 / 10) phys0) \<and>
   usingFallback (update impulse_throws jump (1 / 10) phys0) \<and>
   isGrounded (state (update impulse_throws jump (1 / 10) phys0)) \<and>
   \<not> isJumping (state (update impulse_throws jump (1 / 10) phys0))"
proof -
  have a: "\<not> usingFallback phys0" and b: "\<not> no_body phys0"
    by (simp_all add: scenario_defs)
  have p: "phys_isGrounded probe_throws = Throws"
    by (simp add: probe_throws_def)
  have s: "phys_isGrounded set_throws \<noteq> Throws \<and> body_linvel set_throws \<noteq> Throws \<and>
           phys_getBodyPosition set_throws \<noteq> Throws" "\<forall>t. phys_setBodyVelocity set_throws t = Throws"
    by (simp_all add: set_throws_def)
  have i: "phys_isGrounded impulse_throws \<noteq> Throws \<and> body_linvel impulse_throws \<noteq> Throws \<and>
           phys_getBodyPosition impulse_throws \<noteq> Throws"
    "input_isJumping jump \<and> phys_isGrounded impulse_throws = Returns True \<and>
     jumpCooldownTimer (state phys0) \<le> 0 \<and> (\<forall>i. phys_applyImpulse impulse_throws i = Throws)"
    "\<not> isJumping (state phys0)"
    by (simp_all add: impulse_throws_def scenario_defs)
  show ?thesis
    using degrade_reprocesses_frame [OF a b, of probe_throws still "1 / 10"]
      degrade_reprocesses_frame [OF a b, of set_throws still "1 / 10"]
      degrade_reprocesses_frame [OF a b, of impulse_throws jump "1 / 10"] p s i
    by blast
qed

text \<open>
  C2 (as stated it fails). When \<^verbatim>\<open>body.translation()\<close> throws, the ground probe and
  the position read both fail inside \<^verbatim>\<open>PhysicsWorld\<close>, which answers grounded and
  \<open>(0, 0, 0)\<close>; the controller stays in physics mode.
\<close>

theorem swallowed_failure_counterexample:
  "translation no_translation = Throws \<and>
   \<not> usingFallback phys0 \<and>
   \<not> usingFallback (update (PhysicsWorld live_world no_translation) still (1 / 10) phys0) \<and>
   isGrounded (state (update (PhysicsWorld live_world no_translation) still (1 / 10) phys0)) \<and>
   position (state (update (PhysicsWorld live_world no_translation) still (1 / 10) phys0)) =
     \<lparr>vx = 0, vy = 0, vz = 0\<rparr>"
  by (simp add: scenario_defs physics_defs fallback_defs
      Let_def cong: let_weak_cong)

text \<open>
  C2 (amended). Of the capability calls the controller makes through
  \<^verbatim>\<open>PhysicsWorld\<close> in physics mode, only the velocity read \<^verbatim>\<open>body.linvel()\<close>,
  which the controller calls on the body itself, moves it to fallback mode when it
  fails: after one \<^verbatim>\<open>update\<close> the mode is fallback exactly when the velocity read
  threw. Failures of the ground probe, the position read, the velocity set and the
  impulse stay inside the wrappers.
\<close>

theorem only_velocity_read_degrades:
  assumes "\<not> usingFallback c" and "\<not> no_body c"
  shows "usingFallback (update (PhysicsWorld w b) inp dt c) \<longleftrightarrow> linvel b = Throws"
proof (cases "update_try (PhysicsWorld w b) inp dt c")
  case (Completed c')
  then have "linvel b \<noteq> Throws" using update_try_PhysicsWorld_aborts [of w b inp dt c] by auto
  moreover have "usingFallback c' = usingFallback c"
    using Completed by (rule update_try_PhysicsWorld_mode)
  ultimately show ?thesis using assms Completed by (simp add: update_def)
next
  case (Aborted c')
  then have "linvel b = Throws" using update_try_PhysicsWorld_aborts [of w b inp dt c] by auto
  then show ?thesis using assms Aborted by (simp add: update_def)
qed

theorem only_velocity_read_degrades_witness:
  "\<not> usingFallback phys0 \<and> \<not> no_body phys0 \<and> linvel no_linvel = Throws \<and>
   usingFallback (update (PhysicsWorld live_world no_linvel) jump (1 / 10) phys0)"
proof -
  have a: "\<not> usingFallback phys0" and b: "\<not> no_body phys0"
    by (simp_all add: scenario_defs)
  have l: "linvel no_linvel = Throws"
    by (simp add: no_linvel_def)
  show ?thesis
    using only_velocity_read_degrades [OF a b, of live_world no_linvel jump "1 / 10"] a b l
    by blast
qed

text \<open>
  C3 (as stated it fails). From the constructor's state in fallback mode: one frame to
  land, one frame that starts a jump, then four idle frames of 0.08 s. The timer goes
  0.3, 0.22, 0.14, 0.06 and ends at -0.02: the decrement is not clamped.
\<close>

theorem cooldown_negative_counterexample:
  "jumpCooldownTimer (state (run fb0
      [Update engine0 still (2 / 25), Update engine0 jump (2 / 25),
       Update engine0 still (2 / 25), Update engine0 still (2 / 25),
       Update engine0 still (2 / 25), Update engine0 still (2 / 25)])) = - (1 / 50)"
  by (simp add: scenario_defs update_def fallback_defs Let_def cong: let_weak_cong)

text \<open>
  C3 (amended). The timer is not clamped at 0. Along every run whose time steps lie in
  \<open>[0, D]\<close>, from a timer and a configured cooldown above \<open>-D\<close>, the timer stays
  above \<open>-D\<close>. In one \<^verbatim>\<open>update\<close> the timer is first decremented by \<open>dt\<close> if it
  is positive and left alone otherwise; in a physics frame whose velocity read throws,
  the fallback repeats this step. It is then reset to the configured cooldown exactly
  when jump is requested, the character is grounded (the state's flag on the fallback
  path, the probe of \<^verbatim>\<open>PhysicsWorld\<close> in physics mode) and the decremented timer is
  at most 0; otherwise it keeps the decremented value.
\<close>

theorem cooldown_timer:
  "((\<forall>k\<in>set ks. frame_within D k) \<and> - D < jumpCooldownTimer (state c) \<and>
    - D < jumpCooldown (options c) \<longrightarrow> - D < jumpCooldownTimer (state (run c ks))) \<and>
   (usingFallback c \<or> no_body c \<longrightarrow>
      jumpCooldownTimer (state (update ph inp dt c)) =
        (let t1 = (if 0 < jumpCooldownTimer (state c) then jumpCooldownTimer (state c) - dt
                   else jumpCooldownTimer (state c))
         in if input_isJumping inp \<and> isGrounded (state c) \<and> t1 \<le> 0
            then jumpCooldown (options c) else t1)) \<and>
   (\<not> usingFallback c \<and> \<not> no_body c \<and> linvel b \<noteq> Throws \<longrightarrow>
      jumpCooldownTimer (state (update (PhysicsWorld w b) inp dt c)) =
        (let t1 = (if 0 < jumpCooldownTimer (state c) then jumpCooldownTimer (state c) - dt
                   else jumpCooldownTimer (state c))
         in if input_isJumping inp \<and> PhysicsWorld_isGrounded w (Some b) \<and> t1 \<le> 0
            then jumpCooldown (options c) else t1)) \<and>
   (\<not> usingFallback c \<and> \<not> no_body c \<and> linvel b = Throws \<longrightarrow>
      jumpCooldownTimer (state (update (PhysicsWorld w b) inp dt c)) =
        (let t1 = (if 0 < jumpCooldownTimer (state c) then jumpCooldownTimer (state c) - dt
                   else jumpCooldownTimer (state c));
             t2 = (if 0 < t1 then t1 - dt else t1)
         in if input_isJumping inp \<and> PhysicsWorld_isGrounded w (Some b) \<and> t2 \<le> 0
            then jumpCooldown (options c) else t2))"
  using run_timer_bound [of ks D c] update_fallback_timer [of c ph inp dt]
    update_physics_timer [of c b w inp dt] update_degrading_timer [of c b w inp dt]
  by blast

theorem cooldown_timer_witness:
  "- (2 / 25) < jumpCooldownTimer (state (run fb0
      [Update engine0 still (2 / 25), Update engine0 jump (2 / 25),
       Update engine0 still (2 / 25), Update engine0 still (2 / 25),
       Update engine0 still (2 / 25), Update engine0 still (2 / 25)])) \<and>
   jumpCooldownTimer (state aloft) = 3 / 10 \<and>
   jumpCooldownTimer (state (update engine0 still (2 / 25) aloft)) = 11 / 50 \<and>
   jumpCooldownTimer (state (update engine0 jump (2 / 25)
      (updateFallbackMovement still (2 / 25) fb0))) = 3 / 10 \<and>
   jumpCooldownTimer (state aloft_physics) = 3 / 10 \<and>
   jumpCooldownTimer (state (update (PhysicsWorld live_world (body_at spawn)) still (2 / 25)
      aloft_physics)) = 11 / 50 \<and>
   jumpCooldownTimer (state (update (PhysicsWorld live_world no_linvel) still (2 / 25)
      aloft_physics)) = 7 / 50"
proof -
  let ?ks = "[Update engine0 still (2 / 25), Update engine0 jump (2 / 25),
       Update engine0 still (2 / 25), Update engine0 still (2 / 25),
       Update engine0 still (2 / 25), Update engine0 still (2 / 25)]"
  define landed where "landed = updateFallbackMovement still (2 / 25) fb0"
  have a: "\<forall>k\<in>set ?ks. frame_within (2 / 25) k"
    by (simp add: frame_within_def)
  have b: "- (2 / 25) < jumpCooldownTimer (state fb0)" "- (2 / 25) < jumpCooldown (options fb0)"
    by (simp_all add: scenario_defs)
  have f: "usingFallback aloft" "jumpCooldownTimer (state aloft) = 3 / 10"
    "\<not> input_isJumping still" "jumpCooldown (options aloft) = 3 / 10"
    by (simp_all add: aloft_def scenario_defs update_def fallback_defs Let_def
        cong: let_weak_cong)
  have g: "usingFallback landed" "jumpCooldownTimer (state landed) = 0" "isGrounded (state landed)"
    "input_isJumping jump" "jumpCooldown (options landed) = 3 / 10"
    by (simp_all add: landed_def scenario_defs fallback_defs Let_def cong: let_weak_cong)
  have p: "\<not> usingFallback aloft_physics" "\<not> no_body aloft_physics"
    "jumpCooldownTimer (state aloft_physics) = 3 / 10"
    "linvel (body_at spawn) \<noteq> Throws" "linvel no_linvel = Throws"
    by (simp_all add: aloft_physics_def scenario_defs physics_defs fallback_defs Let_def
        cong: let_weak_cong)
  have 1: "- (2 / 25) < jumpCooldownTimer (state (run fb0 ?ks))"
    using cooldown_timer [of ?ks "2 / 25" fb0] a b by blast
  have 2: "jumpCooldownTimer (state (update engine0 still (2 / 25) aloft)) = 11 / 50"
    using cooldown_timer [of "[]" 0 aloft engine0 still "2 / 25"] f by (simp add: Let_def)
  have 3: "jumpCooldownTimer (state (update engine0 jump (2 / 25) landed)) = 3 / 10"
    using cooldown_timer [of "[]" 0 landed engine0 jump "2 / 25"] g by (simp add: Let_def)
  have 4: "jumpCooldownTimer (state (update (PhysicsWorld live_world (body_at spawn)) still (2 / 25)
      aloft_physics)) = 11 / 50"
    using cooldown_timer [of "[]" 0 aloft_physics engine0 still "2 / 25" "body_at spawn" live_world]
      p f(3) by (simp add: Let_def)
  have 5: "jumpCooldownTimer (state (update (PhysicsWorld live_world no_linvel) still (2 / 25)
      aloft_physics)) = 7 / 50"
    using cooldown_timer [of "[]" 0 aloft_physics engine0 still "2 / 25" no_linvel live_world]
      p f(3) by (simp add: Let_def)
  show ?thesis using 1 2 3 4 5 f(2) p(3) unfolding landed_def by simp
qed

text \<open>
  C4 (as stated it fails). From the constructor's state (yaw 0), a move towards the
  target angle \<open>\<pi>\<close> with the default rotation speed 5 and a frame of 0.1 s turns the
  character by \<open>\<pi>/2\<close>, more than \<open>rotationSpeed * dt = 0.5\<close>.
\<close>

theorem rotation_step_counterexample:
  "moving south \<and>
   rotationSpeed (options fb0) * (1 / 10) <
     \<bar>vy (rotation (state (updateRotation south (1 / 10) fb0))) - vy (rotation (state fb0))\<bar>"
proof -
  have w: "wrap_up (wrap_down 0) = 0"
    by (intro wrap_fixed) simp_all
  have d: "angleDiff pi 0 = pi"
    by (simp add: angleDiff_def w Let_def)
  have "vy (rotation (state (updateRotation south (1 / 10) fb0))) - vy (rotation (state fb0)) = pi / 2"
    by (simp add: updateRotation_def south_def scenario_defs atan2_south d Let_def)
  moreover have "(1::real) / 2 < pi / 2" using pi_ge_two by simp
  ultimately show ?thesis
    by (simp add: moving_def south_def scenario_defs)
qed

text \<open>
  C4 (amended). For every non-zero movement input, one rotation update adds
  \<open>angleDiff * rotationSpeed * dt\<close> to the yaw, where \<open>angleDiff\<close>, of magnitude at
  most \<open>\<pi>\<close>, is the signed shortest rotation from the yaw to the target angle
  \<open>atan2(move.x, move.z)\<close> (it differs from target minus yaw by a multiple of
  \<open>2\<pi>\<close>). The step is a fraction \<open>rotationSpeed * dt\<close> of the angular distance, not
  an amount bounded by \<open>rotationSpeed * dt\<close>: the distance left after the step is
  \<open>(1 - rotationSpeed * dt) * angleDiff\<close>, and when \<open>0 \<le> rotationSpeed * dt \<le> 1\<close>
  the step is no longer than the distance, so the target is not overshot.
\<close>

theorem rotation_step:
  assumes "moving m"
  shows "vy (rotation (state (updateRotation m dt c))) =
           vy (rotation (state c)) +
           angleDiff (atan2 (dx m) (dz m)) (vy (rotation (state c))) *
             rotationSpeed (options c) * dt \<and>
         \<bar>angleDiff (atan2 (dx m) (dz m)) (vy (rotation (state c)))\<bar> \<le> pi \<and>
         (\<exists>k::int. atan2 (dx m) (dz m) - vy (rotation (state c)) =
            angleDiff (atan2 (dx m) (dz m)) (vy (rotation (state c))) + 2 * pi * of_int k) \<and>
         (\<exists>k::int. atan2 (dx m) (dz m) - vy (rotation (state (updateRotation m dt c))) =
            (1 - rotationSpeed (options c) * dt) *
              angleDiff (atan2 (dx m) (dz m)) (vy (rotation (state c))) + 2 * pi * of_int k) \<and>
         (0 \<le> rotationSpeed (options c) * dt \<and> rotationSpeed (options c) * dt \<le> 1 \<longrightarrow>
            \<bar>vy (rotation (state (updateRotation m dt c))) - vy (rotation (state c))\<bar>
              \<le> \<bar>angleDiff (atan2 (dx m) (dz m)) (vy (rotation (state c)))\<bar>)"
proof -
  define a where "a = angleDiff (atan2 (dx m) (dz m)) (vy (rotation (state c)))"
  define q where "q = rotationSpeed (options c) * dt"
  have y: "vy (rotation (state (updateRotation m dt c))) = vy (rotation (state c)) + a * q"
    using updateRotation_yaw [OF assms, of dt c] by (simp add: a_def q_def)
  have r: "\<bar>a\<bar> \<le> pi"
    unfolding a_def using atan2_range by (intro angleDiff_range) simp_all
  obtain k :: int where k: "atan2 (dx m) (dz m) - vy (rotation (state c)) = a + 2 * pi * of_int k"
    unfolding a_def using angleDiff_shift by blast
  have k': "atan2 (dx m) (dz m) - vy (rotation (state (updateRotation m dt c))) =
              (1 - q) * a + 2 * pi * of_int k"
    using k y by (simp add: algebra_simps)
  have s: "0 \<le> q \<and> q \<le> 1 \<longrightarrow>
             \<bar>vy (rotation (state (updateRotation m dt c))) - vy (rotation (state c))\<bar> \<le> \<bar>a\<bar>"
  proof
    assume "0 \<le> q \<and> q \<le> 1"
    then have "\<bar>a * q\<bar> \<le> \<bar>a\<bar> * 1"
      unfolding abs_mult by (intro mult_left_mono) simp_all
    then show "\<bar>vy (rotation (state (updateRotation m dt c))) - vy (rotation (state c))\<bar> \<le> \<bar>a\<bar>"
      using y by simp
  qed
  show ?thesis
    using y r k k' s unfolding a_def q_def by (auto simp: mult.assoc)
qed

theorem rotation_step_witness:
  "moving south \<and> rotationSpeed (options fb0) * (1 / 10) \<le> 1 \<and>
   \<bar>vy (rotation (state (updateRotation south (1 / 10) fb0))) - vy (rotation (state fb0))\<bar> \<le> pi"
proof -
  have m: "moving south" by (simp add: moving_def south_def)
  have q: "0 \<le> rotationSpeed (options fb0) * (1 / 10) \<and>
           rotationSpeed (options fb0) * (1 / 10) \<le> 1"
    by (simp add: scenario_defs)
  show ?thesis using rotation_step [OF m, of "1 / 10" fb0] m q by linarith
qed

text \<open>
  C5. Mode monotonicity: a controller in fallback mode is in fallback mode after every
  sequence of \<^verbatim>\<open>update\<close>, \<^verbatim>\<open>getPosition\<close> and \<^verbatim>\<open>getState\<close> calls, whatever
  the inputs and the engine do; along any run from any controller the mode changes from
  physics to fallback at most once.
\<close>

theorem mode_monotone:
  "(usingFallback c \<longrightarrow> usingFallback (run c ks)) \<and> degrades (trace c ks) \<le> 1"
  using run_keeps_fallback degrades_le_one by blast

theorem mode_monotone_witness:
  "usingFallback fb0 \<and>
   usingFallback
     (run fb0 [Update (PhysicsWorld live_world (body_at spawn)) jump (1 / 10),
               GetPosition (PhysicsWorld live_world (body_at spawn)), GetState]) \<and>
   degrades
     (trace fb0 [Update (PhysicsWorld live_world (body_at spawn)) jump (1 / 10),
                 GetPosition (PhysicsWorld live_world (body_at spawn)), GetState]) \<le> 1"
proof -
  have "usingFallback fb0"
    by (simp add: scenario_defs)
  with mode_monotone [of fb0 "[Update (PhysicsWorld live_world (body_at spawn)) jump (1 / 10),
      GetPosition (PhysicsWorld live_world (body_at spawn)), GetState]"]
  show ?thesis by blast
qed

text \<open>
  C6 (as stated it fails). The controller \<open>low1\<close> is in physics mode, grounded, with
  the timer at 0, its body resting at height 0.5. In the next frame the probe answers
  grounded, jump is requested and the velocity read throws: the frame falls back, the
  jump starts with \<open>velocity.y = 1\<close>, the height becomes 0.6, and the ground block
  puts the character back on the ground, so the frame ends with \<open>is_grounded = true\<close>.
\<close>

theorem jump_initiation_counterexample:
  "\<not> usingFallback low1 \<and> isGrounded (state low1) \<and> jumpCooldownTimer (state low1) \<le> 0 \<and>
   input_isJumping jump \<and> PhysicsWorld_isGrounded live_world (Some low_no_linvel) \<and>
   isGrounded (state (update (PhysicsWorld live_world low_no_linvel) jump (1 / 10) low1))"
  by (simp add: scenario_defs low_def low1_def low_no_linvel_def physics_defs fallback_defs Let_def cong: let_weak_cong)

text \<open>
  C6 (amended). With jump requested and the timer at most 0, one \<^verbatim>\<open>update\<close> ends
  with \<open>is_jumping = true\<close>, \<open>is_grounded = false\<close> and the timer equal to the
  configured cooldown (0.3 by default) in these cases: in fallback mode when the state
  is grounded, and in physics mode when the ground probe of \<^verbatim>\<open>PhysicsWorld\<close>
  answers grounded; in both, where the frame runs the fallback integrator (always in
  fallback mode, and in physics mode when the velocity read throws), the height after
  the first step of the jump must not be below the resting height:
  \<open>position.y + 0.1 * jumpForce * dt \<ge> 1\<close>. The landing reset does not clear the flag.
\<close>

theorem jump_initiation:
  assumes "input_isJumping inp" and "jumpCooldownTimer (state c) \<le> 0"
  shows "(usingFallback c \<and> isGrounded (state c) \<and>
          1 \<le> vy (position (state c)) + jumpForce (options c) * (1 / 10) * dt \<longrightarrow>
            isJumping (state (update ph inp dt c)) \<and>
            \<not> isGrounded (state (update ph inp dt c)) \<and>
            jumpCooldownTimer (state (update ph inp dt c)) = jumpCooldown (options c)) \<and>
         (\<not> usingFallback c \<and> \<not> no_body c \<and> PhysicsWorld_isGrounded w (Some b) \<and>
          linvel b \<noteq> Throws \<longrightarrow>
            isJumping (state (update (PhysicsWorld w b) inp dt c)) \<and>
            \<not> isGrounded (state (update (PhysicsWorld w b) inp dt c)) \<and>
            jumpCooldownTimer (state (update (PhysicsWorld w b) inp dt c)) = jumpCooldown (options c)) \<and>
         (\<not> usingFallback c \<and> \<not> no_body c \<and> PhysicsWorld_isGrounded w (Some b) \<and>
          linvel b = Throws \<and>
          1 \<le> vy (position (state c)) + jumpForce (options c) * (1 / 10) * dt \<longrightarrow>
            isJumping (state (update (PhysicsWorld w b) inp dt c)) \<and>
            \<not> isGrounded (state (update (PhysicsWorld w b) inp dt c)) \<and>
            jumpCooldownTimer (state (update (PhysicsWorld w b) inp dt c)) = jumpCooldown (options c))"
  using fallback_jumps [of inp c dt] physics_jumps_returns [of inp c w b dt]
    physics_jumps_throws [of inp c w b dt] assms
  by (auto simp: update_def)

theorem jump_initiation_witness:
  "isJumping (state (update engine0 jump (1 / 10) (updateFallbackMovement still (1 / 10) fb0))) \<and>
   \<not> isGrounded (state (update engine0 jump (1 / 10) (updateFallbackMovement still (1 / 10) fb0))) \<and>
   jumpCooldownTimer (state (update engine0 jump (1 / 10) (updateFallbackMovement still (1 / 10) fb0)))
     = 3 / 10 \<and>
   isJumping (state (update (PhysicsWorld live_world (body_at spawn)) jump (1 / 10) phys0)) \<and>
   \<not> isGrounded (state (update (PhysicsWorld live_world (body_at spawn)) jump (1 / 10) phys0)) \<and>
   jumpCooldownTimer (state (update (PhysicsWorld live_world (body_at spawn)) jump (1 / 10) phys0))
     = 3 / 10 \<and>
   isJumping (state (update (PhysicsWorld live_world no_linvel) jump (1 / 10) phys0)) \<and>
   \<not> isGrounded (state (update (PhysicsWorld live_world no_linvel) jump (1 / 10) phys0)) \<and>
   jumpCooldownTimer (state (update (PhysicsWorld live_world no_linvel) jump (1 / 10) phys0))
     = 3 / 10"
proof -
  define c where "c = updateFallbackMovement still (1 / 10) fb0"
  have j: "input_isJumping jump" by (simp add: jump_def)
  have t: "jumpCooldownTimer (state c) \<le> 0" "jumpCooldownTimer (state phys0) \<le> 0"
    by (simp_all add: c_def scenario_defs fallback_defs Let_def cong: let_weak_cong)
  have f: "usingFallback c \<and> isGrounded (state c) \<and>
           1 \<le> vy (position (state c)) + jumpForce (options c) * (1 / 10) * (1 / 10)"
    by (simp add: c_def scenario_defs fallback_defs Let_def cong: let_weak_cong)
  have p: "\<not> usingFallback phys0 \<and> \<not> no_body phys0 \<and>
           PhysicsWorld_isGrounded live_world (Some (body_at spawn)) \<and>
           linvel (body_at spawn) \<noteq> Throws"
    by (simp add: scenario_defs PhysicsWorld_isGrounded_def)
  have q: "\<not> usingFallback phys0 \<and> \<not> no_body phys0 \<and>
           PhysicsWorld_isGrounded live_world (Some no_linvel) \<and> linvel no_linvel = Throws \<and>
           1 \<le> vy (position (state phys0)) + jumpForce (options phys0) * (1 / 10) * (1 / 10)"
    by (simp add: scenario_defs PhysicsWorld_isGrounded_def)
  have o: "jumpCooldown (options c) = 3 / 10" "jumpCooldown (options phys0) = 3 / 10"
    by (simp_all add: c_def scenario_defs)
  show ?thesis
    using jump_initiation [OF j t(1), of "1 / 10" engine0 live_world "body_at spawn"]
      jump_initiation [OF j t(2), of "1 / 10" engine0 live_world "body_at spawn"]
      jump_initiation [OF j t(2), of "1 / 10" engine0 live_world no_linvel] f p q o
    unfolding c_def by simp
qed

text \<open>
  C7 (as stated it fails, in its last part). A jump initiation can leave both flags
  true. After a frame in which \<^verbatim>\<open>body.translation()\<close> throws, the state is grounded
  at \<open>(0, 0, 0)\<close>; when the engine then fails altogether and jump is requested, the
  frame falls back, starts the jump (the timer is reset to 0.3) and is clamped to the
  ground in the same frame.
\<close>

theorem jump_clamped_counterexample:
  "\<not> isJumping (state (run phys0 [Update (PhysicsWorld live_world no_translation) still (1 / 10)])) \<and>
   isJumping (state (run phys0 [Update (PhysicsWorld live_world no_translation) still (1 / 10),
                                Update (PhysicsWorld live_world dead_body) jump (1 / 10)])) \<and>
   isGrounded (state (run phys0 [Update (PhysicsWorld live_world no_translation) still (1 / 10),
                                 Update (PhysicsWorld live_world dead_body) jump (1 / 10)])) \<and>
   jumpCooldownTimer (state (run phys0 [Update (PhysicsWorld live_world no_translation) still (1 / 10),
                                 Update (PhysicsWorld live_world dead_body) jump (1 / 10)])) = 3 / 10"
  by (simp add: scenario_defs dead_body_def physics_defs fallback_defs Let_def cong: let_weak_cong)

text \<open>
  C7 (amended). With \<^verbatim>\<open>PhysicsWorld\<close>, a non-negative time step and a
  non-negative jump force, \<open>is_grounded\<close> and \<open>is_jumping\<close> are never both true at
  the end of two consecutive frames, from any state. They are both true at the end of
  a frame only when that frame ran the fallback integrator and its ground block fired
  (the mode is fallback and \<open>position.y = 1\<close>): a landing frame, which includes a jump
  started so low that it is clamped in the same frame. On every other frame, and at the
  end of every frame completed on the physics path, the conjunction is false.
\<close>

theorem grounded_jumping:
  assumes "0 \<le> dt2" and "0 \<le> jumpForce (options c)"
  shows "\<not> (isGrounded (state (update (PhysicsWorld w1 b1) i1 dt1 c)) \<and>
            isJumping (state (update (PhysicsWorld w1 b1) i1 dt1 c)) \<and>
            isGrounded (state (update (PhysicsWorld w2 b2) i2 dt2
               (update (PhysicsWorld w1 b1) i1 dt1 c))) \<and>
            isJumping (state (update (PhysicsWorld w2 b2) i2 dt2
               (update (PhysicsWorld w1 b1) i1 dt1 c)))) \<and>
         (isGrounded (state (update (PhysicsWorld w1 b1) i1 dt1 c)) \<and>
          isJumping (state (update (PhysicsWorld w1 b1) i1 dt1 c)) \<longrightarrow>
            usingFallback (update (PhysicsWorld w1 b1) i1 dt1 c) \<and>
            vy (position (state (update (PhysicsWorld w1 b1) i1 dt1 c))) = 1)"
proof -
  define c1 where "c1 = update (PhysicsWorld w1 b1) i1 dt1 c"
  have o: "options c1 = options c" by (simp add: c1_def)
  have a: "isGrounded (state c1) \<and> isJumping (state c1) \<longrightarrow>
             usingFallback c1 \<and> vy (position (state c1)) = 1"
    unfolding c1_def using update_both_landing by blast
  have "isGrounded (state c1) \<and> isJumping (state c1) \<longrightarrow>
          \<not> (isGrounded (state (update (PhysicsWorld w2 b2) i2 dt2 c1)) \<and>
             isJumping (state (update (PhysicsWorld w2 b2) i2 dt2 c1)))"
    using a fallback_after_landing [of c1 dt2 "PhysicsWorld w2 b2" i2] assms o by auto
  then show ?thesis using a unfolding c1_def by blast
qed

theorem grounded_jumping_witness:
  "isGrounded (state (update (PhysicsWorld live_world (body_at spawn)) still (1 / 10) airborne)) \<and>
   isJumping (state (update (PhysicsWorld live_world (body_at spawn)) still (1 / 10) airborne)) \<and>
   usingFallback (update (PhysicsWorld live_world (body_at spawn)) still (1 / 10) airborne) \<and>
   vy (position (state (update (PhysicsWorld live_world (body_at spawn)) still (1 / 10) airborne))) = 1 \<and>
   \<not> (isGrounded (state (update (PhysicsWorld live_world (body_at spawn)) jump (1 / 10)
          (update (PhysicsWorld live_world (body_at spawn)) still (1 / 10) airborne))) \<and>
      isJumping (state (update (PhysicsWorld live_world (body_at spawn)) jump (1 / 10)
          (update (PhysicsWorld live_world (body_at spawn)) still (1 / 10) airborne))))"
proof -
  have a: "(0::real) \<le> 1 / 10" by simp
  have b: "0 \<le> jumpForce (options airborne)"
    by (simp add: airborne_def scenario_defs)
  have l: "isGrounded (state (update (PhysicsWorld live_world (body_at spawn)) still (1 / 10) airborne)) \<and>
           isJumping (state (update (PhysicsWorld live_world (body_at spawn)) still (1 / 10) airborne))"
    by (simp add: airborne_def scenario_defs update_def fallback_defs Let_def cong: let_weak_cong)
  show ?thesis
    using grounded_jumping [OF a b, of live_world "body_at spawn" still "1 / 10"
        live_world "body_at spawn" jump] l
    by blast
qed

text \<open>
  C8 (as stated it fails). In physics mode \<^verbatim>\<open>update\<close> overwrites the position with
  the engine's: the first frame of a controller constructed on a live engine, with no
  input and \<open>dt = 0\<close>, moves the position from \<open>(0, 1, 0)\<close> to the spawn point
  \<open>(0, 5, 0)\<close>.
\<close>

theorem null_update_counterexample:
  "\<not> usingFallback phys0 \<and> \<not> moving (getMovementDirection still) \<and>
   position (state phys0) = \<lparr>vx = 0, vy = 1, vz = 0\<rparr> \<and>
   position (state (update engine0 still 0 phys0)) = \<lparr>vx = 0, vy = 5, vz = 0\<rparr>"
  by (simp add: scenario_defs physics_defs fallback_defs Let_def cong: let_weak_cong)

text \<open>
  C8 (amended). Along every sequence of \<^verbatim>\<open>update\<close> calls with a zero movement
  vector and \<open>dt = 0\<close>, the rotation is unchanged, in either mode and whatever the
  engine does. The position is unchanged when the controller is in fallback mode and
  \<open>position.y \<ge> 1\<close> (below 1 the ground block lifts it to 1). In physics mode the
  position after a frame whose velocity read returns is the one \<^verbatim>\<open>PhysicsWorld\<close>
  reports for the body, whatever it was before.
\<close>

theorem null_update:
  assumes "\<forall>k\<in>set ks. null_frame k"
  shows "rotation (state (run c ks)) = rotation (state c) \<and>
         (usingFallback c \<and> 1 \<le> vy (position (state c)) \<longrightarrow>
            position (state (run c ks)) = position (state c)) \<and>
         (\<not> usingFallback c \<and> \<not> no_body c \<and> linvel b \<noteq> Throws \<longrightarrow>
            position (state (update (PhysicsWorld w b) inp dt c)) =
              PhysicsWorld_getBodyPosition (Some b))"
  using run_null [OF assms, of c] update_PhysicsWorld_position [of c b w inp dt] by blast

theorem null_update_witness:
  "null_frame (Update engine0 jump 0) \<and> null_frame (Update engine0 still 0) \<and>
   rotation (state (run fb0 [Update engine0 jump 0, Update engine0 still 0])) = rotation (state fb0) \<and>
   position (state (run fb0 [Update engine0 jump 0, Update engine0 still 0])) = position (state fb0) \<and>
   position (state (update (PhysicsWorld live_world (body_at spawn)) still 0 phys0)) = spawn"
proof -
  have n: "\<forall>k\<in>set [Update engine0 jump 0, Update engine0 still 0]. null_frame k"
    by (simp add: null_frame_def moving_def scenario_defs)
  have f: "usingFallback fb0 \<and> 1 \<le> vy (position (state fb0))"
    by (simp add: scenario_defs)
  have p: "\<not> usingFallback phys0 \<and> \<not> no_body phys0 \<and> linvel (body_at spawn) \<noteq> Throws"
    by (simp add: scenario_defs)
  have g: "PhysicsWorld_getBodyPosition (Some (body_at spawn)) = spawn"
    by (simp add: PhysicsWorld_getBodyPosition_def scenario_defs)
  show ?thesis
    using null_update [OF n, of fb0 "body_at spawn" live_world still 0]
      null_update [OF n, of phys0 "body_at spawn" live_world still 0] n f p g
    by simp
qed

text \<open>
  C9. Frame condition on the vertical velocity. The target velocity of
  \<^verbatim>\<open>handleMovement\<close> carries the stored \<open>velocity.y\<close>; \<^verbatim>\<open>handleMovement\<close>
  writes nothing into the state and issues exactly that target. In a physics frame whose
  ground probe and velocity read return, the one velocity handed to the engine has the
  \<open>y\<close> that was read from it. In the fallback integrator the horizontal block leaves
  \<open>velocity.y\<close> alone, and so do the rotation, cooldown, integration and ground blocks.
\<close>

theorem vertical_velocity_frame:
  "vy (targetVelocity d c) = vy (velocity (state c)) \<and>
   state (handleMovement ph inp dt c) = state c \<and>
   issued (handleMovement ph inp dt c) =
     issued c @ [SetBodyVelocity (targetVelocity (getMovementDirection inp) c)] \<and>
   (\<not> usingFallback c \<and> \<not> no_body c \<and> (\<exists>g. phys_isGrounded ph = Returns g) \<and>
    body_linvel ph = Returns v \<longrightarrow>
      (\<exists>t r. issued (update ph inp dt c) = issued c @ SetBodyVelocity t # r \<and>
             vy t = vy v \<and> (\<forall>t'. SetBodyVelocity t' \<notin> set r))) \<and>
   vy (velocity (state (fallback_horizontal d c))) = vy (velocity (state c)) \<and>
   velocity (state (updateRotation d dt c)) = velocity (state c) \<and>
   velocity (state (cooldown_tick dt c)) = velocity (state c) \<and>
   velocity (state (fallback_integrate dt c)) = velocity (state c) \<and>
   velocity (state (fallback_ground c)) = velocity (state c)"
  using update_issued [of c ph _ v inp dt] by auto

theorem vertical_velocity_frame_witness:
  "\<not> usingFallback phys0 \<and> \<not> no_body phys0 \<and>
   body_linvel (PhysicsWorld live_world falling) = Returns \<lparr>vx = 0, vy = - 2, vz = 0\<rparr> \<and>
   (\<exists>t r. issued (update (PhysicsWorld live_world falling) still (1 / 10) phys0) =
            issued phys0 @ SetBodyVelocity t # r \<and>
          vy t = - 2 \<and> (\<forall>t'. SetBodyVelocity t' \<notin> set r))"
proof -
  have a: "\<not> usingFallback phys0" and b: "\<not> no_body phys0"
    by (simp_all add: scenario_defs)
  have l: "body_linvel (PhysicsWorld live_world falling) = Returns \<lparr>vx = 0, vy = - 2, vz = 0\<rparr>"
    by (simp add: falling_def)
  have g: "\<exists>g. phys_isGrounded (PhysicsWorld live_world falling) = Returns g"
    by simp
  show ?thesis
    using vertical_velocity_frame [where c = phys0 and ph = "PhysicsWorld live_world falling"
        and v = "\<lparr>vx = 0, vy = - 2, vz = 0\<rparr>" and inp = still and dt = "1 / 10"] a b l g
    by simp
qed

text \<open>
  C10. Floor of the fallback integrator: for every input and every time step (so also
  for every non-negative one), \<^verbatim>\<open>updateFallbackMovement\<close> ends with
  \<open>position.y \<ge> 1\<close>, and when it ends grounded, \<open>position.y\<close> is exactly 1.
\<close>

theorem fallback_floor:
  "1 \<le> vy (position (state (updateFallbackMovement inp deltaTime c))) \<and>
   (isGrounded (state (updateFallbackMovement inp deltaTime c)) \<longrightarrow>
      vy (position (state (updateFallbackMovement inp deltaTime c))) = 1)"
  unfolding updateFallbackMovement_def Let_def
  using fallback_ground_floor fallback_ground_grounded by blast

theorem fallback_floor_witness:
  "isGrounded (state (updateFallbackMovement still (1 / 10) fb0)) \<and>
   vy (position (state (updateFallbackMovement still (1 / 10) fb0))) = 1"
proof -
  have "isGrounded (state (updateFallbackMovement still (1 / 10) fb0))"
    by (simp add: fallback_defs scenario_defs Let_def cong: let_weak_cong)
  with fallback_floor [of still "1 / 10" fb0] show ?thesis by blast
qed

end
